theory Spec2Isabelle
  imports Complex_Main "HOL-Library.Word" "HOL-Library.Log_Nat"
begin

unbundle bit_operations_syntax

section \<open>Decoder dispatch (decoder-unified.js, decoder-msgpack.js)\<close>

text \<open>A Node Buffer is a list of bytes; \<open>binaryData[i]\<close> is \<open>binaryData ! i\<close> under a
  length guard, as every indexed read of the source is.\<close>

type_synonym byte = "8 word"

text \<open>\<open>DECODER_TYPES\<close> of decoder-unified.js.\<close>

datatype decoder_type = SFS | MSGPACK | AUTO

text \<open>\<open>isMessagePackMessage\<close> (decoder-msgpack.js): the six ranges of the source, in the
  source's order, on the first byte.\<close>

definition isMessagePackMessage :: "byte list \<Rightarrow> bool" where
  "isMessagePackMessage binaryData =
     (case binaryData of
        [] \<Rightarrow> False
      | firstByte # _ \<Rightarrow>
          (0x80 \<le> firstByte \<and> firstByte \<le> 0x8f) \<or>
          (0x90 \<le> firstByte \<and> firstByte \<le> 0x9f) \<or>
          (0xa0 \<le> firstByte \<and> firstByte \<le> 0xbf) \<or>
          (0xc0 \<le> firstByte \<and> firstByte \<le> 0xdf) \<or>
          (0xd9 \<le> firstByte \<and> firstByte \<le> 0xdb) \<or>
          (0xdc \<le> firstByte \<and> firstByte \<le> 0xdf))"

text \<open>\<open>detectDecoderType\<close> (decoder-unified.js). The inner tests of the second priority all
  return \<open>SFS\<close> in the source; they are kept as written.\<close>

definition detectDecoderType :: "byte list \<Rightarrow> decoder_type" where
  "detectDecoderType binaryData =
     (if length binaryData < 1 then SFS
      else
        let firstByte = binaryData ! 0 in
        if isMessagePackMessage binaryData then
          (if 2 \<le> length binaryData \<and> firstByte = 0x80 \<and>
              (binaryData ! 1 = 0x00 \<or> binaryData ! 1 = 0x01)
           then SFS else MSGPACK)
        else if firstByte AND 0x80 = 0x80 then
          (if 3 \<le> length binaryData then
             (if 5 \<le> length binaryData \<and> binaryData ! 3 = 0x78 \<and> binaryData ! 4 = 0x9c then SFS
              else if 4 \<le> length binaryData \<and> (binaryData ! 3 = 0x12 \<or> binaryData ! 3 = 0x11)
              then SFS
              else SFS)
           else SFS)
        else MSGPACK)"

section \<open>JavaScript numbers\<close>

text \<open>A JavaScript number is an IEEE-754 binary64 value: NaN, an infinity, or a finite
  double, kept as the rational it denotes. Negative zero is identified with zero (no
  operation modelled below tells them apart except the sign of a division by zero, which
  the code never performs on a computed zero).\<close>

datatype jsnum = NaN | PInf | NInf | Fin rat

definition pow2 :: "int \<Rightarrow> rat" where
  "pow2 k = (if 0 \<le> k then 2 ^ nat k else 1 / 2 ^ nat (- k))"

text \<open>\<open>ilog2 a\<close> is the binary exponent of a positive rational: \<open>2^(ilog2 a) \<le> a < 2^(ilog2 a + 1)\<close>.\<close>

definition ilog2 :: "rat \<Rightarrow> int" where
  "ilog2 a = (case quotient_of a of (p, q) \<Rightarrow>
     (let k = bitlen p - bitlen q in if pow2 k \<le> a then k else k - 1))"

definition round_half_even :: "rat \<Rightarrow> int" where
  "round_half_even q = (let f = \<lfloor>q\<rfloor>; d = q - of_int f in
     if d < 1 / 2 then f else if 1 / 2 < d then f + 1 else if even f then f else f + 1)"

text \<open>\<open>fl x\<close> is the double nearest to the exact value \<open>x\<close> (round to nearest, ties to even;
  53-bit significand, subnormals below \<open>2^-1022\<close>, overflow to an infinity). A decimal literal
  of the source and the result of every arithmetic operation go through it. With \<open>e\<close> the
  binary exponent and \<open>n\<close> the rounded significand, the rounded value is \<open>n * 2^(e-52)\<close>; it
  reaches \<open>2^1024\<close>, and overflows, exactly when \<open>e \<ge> 1024\<close> or \<open>e = 1023\<close> and \<open>n = 2^53\<close>.\<close>

definition fl :: "rat \<Rightarrow> jsnum" where
  "fl x = (if x = 0 then Fin 0 else
     (let a = \<bar>x\<bar>; e = max (ilog2 a) (- 1022); u = pow2 (e - 52);
          n = round_half_even (a / u)
      in if 1024 \<le> e \<or> (e = 1023 \<and> 2 ^ 53 \<le> n) then (if 0 < x then PInf else NInf)
         else Fin (if 0 < x then of_int n * u else - (of_int n * u))))"

definition isFinite :: "jsnum \<Rightarrow> bool" where
  "isFinite v = (case v of Fin _ \<Rightarrow> True | _ \<Rightarrow> False)"

definition isNaN :: "jsnum \<Rightarrow> bool" where
  "isNaN v = (v = NaN)"

text \<open>Truthiness of a number, as \<open>||\<close> and \<open>!\<close> test it: NaN and zero are falsy.\<close>

definition truthy :: "jsnum \<Rightarrow> bool" where
  "truthy v = (v \<noteq> NaN \<and> v \<noteq> Fin 0)"

text \<open>\<open>a || b\<close> on numbers.\<close>

definition js_or :: "jsnum \<Rightarrow> jsnum \<Rightarrow> jsnum" where
  "js_or a b = (if truthy a then a else b)"

text \<open>\<open>a < b\<close>: every comparison with NaN is false.\<close>

fun js_lt :: "jsnum \<Rightarrow> jsnum \<Rightarrow> bool" where
  "js_lt NaN _ = False"
| "js_lt _ NaN = False"
| "js_lt (Fin x) (Fin y) = (x < y)"
| "js_lt NInf NInf = False"
| "js_lt NInf _ = True"
| "js_lt PInf _ = False"
| "js_lt (Fin x) PInf = True"
| "js_lt (Fin x) NInf = False"

definition js_gt :: "jsnum \<Rightarrow> jsnum \<Rightarrow> bool" where
  "js_gt a b = js_lt b a"

definition js_le :: "jsnum \<Rightarrow> jsnum \<Rightarrow> bool" where
  "js_le a b = (js_lt a b \<or> (a = b \<and> a \<noteq> NaN))"

fun js_sign :: "jsnum \<Rightarrow> int" where
  "js_sign NaN = 0"
| "js_sign PInf = 1"
| "js_sign NInf = - 1"
| "js_sign (Fin x) = (if x = 0 then 0 else if 0 < x then 1 else - 1)"

definition js_inf :: "int \<Rightarrow> jsnum" where
  "js_inf s = (if s = 0 then NaN else if 0 < s then PInf else NInf)"

fun js_mul :: "jsnum \<Rightarrow> jsnum \<Rightarrow> jsnum" where
  "js_mul (Fin x) (Fin y) = fl (x * y)"
| "js_mul NaN _ = NaN"
| "js_mul _ NaN = NaN"
| "js_mul a b = js_inf (js_sign a * js_sign b)"

fun js_div :: "jsnum \<Rightarrow> jsnum \<Rightarrow> jsnum" where
  "js_div (Fin x) (Fin y) = (if y = 0 then js_inf (js_sign (Fin x)) else fl (x / y))"
| "js_div NaN _ = NaN"
| "js_div _ NaN = NaN"
| "js_div (Fin x) _ = Fin 0"
| "js_div a (Fin y) = js_inf (js_sign a * (if y < 0 then - 1 else 1))"
| "js_div _ _ = NaN"

fun js_sub :: "jsnum \<Rightarrow> jsnum \<Rightarrow> jsnum" where
  "js_sub (Fin x) (Fin y) = fl (x - y)"
| "js_sub NaN _ = NaN"
| "js_sub _ NaN = NaN"
| "js_sub PInf PInf = NaN"
| "js_sub NInf NInf = NaN"
| "js_sub PInf _ = PInf"
| "js_sub NInf _ = NInf"
| "js_sub (Fin x) PInf = NInf"
| "js_sub (Fin x) NInf = PInf"

text \<open>\<open>Math.round\<close>: the nearest integer, a tie going up; exact on a double.\<close>

fun Math_round :: "jsnum \<Rightarrow> jsnum" where
  "Math_round (Fin x) = Fin (of_int \<lfloor>x + 1 / 2\<rfloor>)"
| "Math_round v = v"

definition Math_min :: "jsnum \<Rightarrow> jsnum \<Rightarrow> jsnum" where
  "Math_min a b = (if a = NaN \<or> b = NaN then NaN else if js_lt b a then b else a)"

text \<open>\<open>Math.pow(10, decimals)\<close> for a natural number of decimals.\<close>

definition Math_pow10 :: "nat \<Rightarrow> jsnum" where
  "Math_pow10 decimals = fl (10 ^ decimals)"

text \<open>\<open>String(n)\<close> of an integer, for the synthesized round ids.\<close>

definition digit_char :: "nat \<Rightarrow> char" where
  "digit_char d =
     (if d = 0 then CHR ''0'' else if d = 1 then CHR ''1'' else if d = 2 then CHR ''2''
      else if d = 3 then CHR ''3'' else if d = 4 then CHR ''4'' else if d = 5 then CHR ''5''
      else if d = 6 then CHR ''6'' else if d = 7 then CHR ''7'' else if d = 8 then CHR ''8''
      else CHR ''9'')"

fun show_nat :: "nat \<Rightarrow> string" where
  "show_nat n = (if n < 10 then [digit_char n]
                 else show_nat (n div 10) @ [digit_char (n mod 10)])"

definition show_int :: "int \<Rightarrow> string" where
  "show_int i = (if i < 0 then CHR ''-'' # show_nat (nat (- i)) else show_nat (nat i))"

section \<open>The durable store (create_all_tables.sql, gameRoundModel.js, signalModel.js)\<close>

text \<open>Errors the store raises, by SQLSTATE: \<open>23505\<close> (unique violation) and \<open>22003\<close>
  (numeric value out of range). The code tests for exactly these two codes.\<close>

datatype db_error = UniqueViolation | NumericOverflow

text \<open>PostgreSQL rounds a value assigned to a \<open>DECIMAL(p,s)\<close> column to \<open>s\<close> decimals, half
  away from zero.\<close>

definition round_half_away :: "rat \<Rightarrow> int" where
  "round_half_away y = (if 0 \<le> y then \<lfloor>y + 1 / 2\<rfloor> else - \<lfloor>- y + 1 / 2\<rfloor>)"

text \<open>A number bound to a \<open>DECIMAL(p,s)\<close> column: the rounded value must be below
  \<open>10^(p-s)\<close> in absolute value, else the statement fails with \<open>22003\<close>
  (\<open>max_multiplier DECIMAL(20,2)\<close>, the amounts \<open>DECIMAL(15,2)\<close>, \<open>loss_percentage
  DECIMAL(5,2)\<close>, the attempt results \<open>DECIMAL(10,2)\<close>). The driver sends the number as
  text; the text is taken to denote the double exactly. An infinity does not fit a column
  with a precision. NaN never reaches the store on the paths below (every bound value is
  an output of \<open>safeDecimalValue\<close> or of \<open>parseFloat(..) || 0\<close>); it is rejected here.\<close>

definition to_decimal :: "nat \<Rightarrow> nat \<Rightarrow> jsnum \<Rightarrow> db_error + rat" where
  "to_decimal p s v =
     (case v of
        Fin x \<Rightarrow>
          (let r = of_int (round_half_away (x * 10 ^ s)) / 10 ^ s
           in if \<bar>r\<bar> < 10 ^ (p - s) then Inr r else Inl NumericOverflow)
      | _ \<Rightarrow> Inl NumericOverflow)"

text \<open>A number bound to an \<open>INTEGER\<close> column (\<open>bets_count\<close>, \<open>online_players\<close>).\<close>

definition to_int4 :: "int \<Rightarrow> db_error + int" where
  "to_int4 n = (if - (2 ^ 31) \<le> n \<and> n < 2 ^ 31 then Inr n else Inl NumericOverflow)"

text \<open>A row of \<open>game_rounds\<close>. \<open>timestamp\<close> is in milliseconds; the serial \<open>id\<close>,
  \<open>created_at\<close> and \<open>updated_at\<close> are not read by the code modelled here.\<close>

record game_round =
  bookmaker_id :: int
  round_id :: string
  bets_count :: int
  total_bet_amount :: rat
  online_players :: int
  max_multiplier :: rat
  total_cashout :: rat
  casino_profit :: rat
  loss_percentage :: rat
  timestamp :: int

text \<open>\<open>status VARCHAR(20)\<close> of \<open>signals\<close>: the code writes only these three values.\<close>

datatype signal_status = Pending | Won | Lost

record signal =
  signal_id :: int
  signal_bookmaker_id :: int
  pattern_detected :: "jsnum list"
  status :: signal_status
  gale_used :: bool
  first_attempt_result :: "rat option"
  second_attempt_result :: "rat option"

record signal_result =
  result_signal_id :: int
  attempt_number :: int
  result_multiplier :: rat
  is_win :: bool
  result_round_id :: string

text \<open>\<open>round_id.startsWith('temp_') || round_id.startsWith('round_')\<close>.\<close>

definition isTemporaryId :: "string \<Rightarrow> bool" where
  "isTemporaryId rid = (take 5 rid = ''temp_'' \<or> take 6 rid = ''round_'')"

text \<open>\<open>GameRound.findByRoundId\<close>.\<close>

definition findByRoundId :: "game_round list \<Rightarrow> int \<Rightarrow> string \<Rightarrow> game_round option" where
  "findByRoundId rows b rid = find (\<lambda>r. bookmaker_id r = b \<and> round_id r = rid) rows"

text \<open>\<open>ORDER BY timestamp DESC LIMIT 1\<close>: the row with the greatest timestamp (the first such
  row of the table where several share it; SQL leaves that choice open).\<close>

fun latest :: "game_round list \<Rightarrow> game_round option" where
  "latest [] = None"
| "latest (r # rs) =
     (case latest rs of
        None \<Rightarrow> Some r
      | Some r' \<Rightarrow> if timestamp r' > timestamp r then Some r' else Some r)"

text \<open>\<open>GameRound.findSimilarRound(bookmaker_id, max_multiplier)\<close>, the branch without a
  timestamp, which is the one every caller takes: same bookmaker, multiplier within 0.01
  (exact decimal arithmetic of the store), timestamp within the last 5 minutes.\<close>

definition findSimilarRound :: "int \<Rightarrow> game_round list \<Rightarrow> int \<Rightarrow> jsnum \<Rightarrow> game_round option" where
  "findSimilarRound now rows b m =
     (case m of
        Fin x \<Rightarrow>
          latest (filter (\<lambda>r. bookmaker_id r = b \<and> \<bar>max_multiplier r - x\<bar> < 1 / 100 \<and>
                                timestamp r > now - 5 * 60 * 1000) rows)
      | _ \<Rightarrow> None)"

text \<open>\<open>GameRound.deleteByRoundId\<close>.\<close>

definition deleteByRoundId :: "game_round list \<Rightarrow> int \<Rightarrow> string \<Rightarrow> game_round list" where
  "deleteByRoundId rows b rid = filter (\<lambda>r. \<not> (bookmaker_id r = b \<and> round_id r = rid)) rows"

text \<open>\<open>GameRound.updateRoundId(oldRoundId, newRoundId, bookmaker_id)\<close>; the caller discards
  the returned row, so only the table is returned.\<close>

definition updateRoundId :: "game_round list \<Rightarrow> string \<Rightarrow> string \<Rightarrow> int \<Rightarrow> game_round list" where
  "updateRoundId rows oldRoundId newRoundId b =
     (case findByRoundId rows b newRoundId of
        Some existing \<Rightarrow> deleteByRoundId rows b oldRoundId
      | None \<Rightarrow>
          map (\<lambda>r. if bookmaker_id r = b \<and> round_id r = oldRoundId
                    then r\<lparr>round_id := newRoundId\<rparr> else r) rows)"

text \<open>The values of an \<open>INSERT\<close> into \<open>game_rounds\<close>, each checked against its column, in
  the order of the statement; the first that does not fit fails the statement.\<close>

definition roundColumns ::
  "int \<Rightarrow> int \<Rightarrow> string \<Rightarrow> int \<Rightarrow> jsnum \<Rightarrow> int \<Rightarrow> jsnum \<Rightarrow> jsnum \<Rightarrow> jsnum \<Rightarrow> jsnum
     \<Rightarrow> db_error + game_round" where
  "roundColumns now b rid bc tba op mm tc cp lp =
     (case to_int4 bc of Inl e \<Rightarrow> Inl e | Inr bc' \<Rightarrow>
      case to_decimal 15 2 tba of Inl e \<Rightarrow> Inl e | Inr tba' \<Rightarrow>
      case to_int4 op of Inl e \<Rightarrow> Inl e | Inr op' \<Rightarrow>
      case to_decimal 20 2 mm of Inl e \<Rightarrow> Inl e | Inr mm' \<Rightarrow>
      case to_decimal 15 2 tc of Inl e \<Rightarrow> Inl e | Inr tc' \<Rightarrow>
      case to_decimal 15 2 cp of Inl e \<Rightarrow> Inl e | Inr cp' \<Rightarrow>
      case to_decimal 5 2 lp of Inl e \<Rightarrow> Inl e | Inr lp' \<Rightarrow>
        Inr \<lparr>bookmaker_id = b, round_id = rid, bets_count = bc', total_bet_amount = tba',
             online_players = op', max_multiplier = mm', total_cashout = tc',
             casino_profit = cp', loss_percentage = lp', timestamp = now\<rparr>)"

text \<open>The \<open>INSERT .. ON CONFLICT (bookmaker_id, round_id) DO UPDATE .. RETURNING *\<close> of
  \<open>addRound\<close>: a row with the key is overwritten (its timestamp kept), otherwise the new
  row, stamped \<open>now\<close>, is appended.\<close>

definition insertRound ::
  "int \<Rightarrow> game_round list \<Rightarrow> int \<Rightarrow> string \<Rightarrow> int \<Rightarrow> jsnum \<Rightarrow> int \<Rightarrow> jsnum \<Rightarrow> jsnum \<Rightarrow> jsnum \<Rightarrow> jsnum
     \<Rightarrow> db_error + (game_round \<times> game_round list)" where
  "insertRound now rows b rid bc tba op mm tc cp lp =
     (case roundColumns now b rid bc tba op mm tc cp lp of
        Inl e \<Rightarrow> Inl e
      | Inr new \<Rightarrow>
          (case findByRoundId rows b rid of
             None \<Rightarrow> Inr (new, rows @ [new])
           | Some old \<Rightarrow>
               (let row = new\<lparr>timestamp := timestamp old\<rparr>
                in Inr (row, map (\<lambda>r. if bookmaker_id r = b \<and> round_id r = rid then row else r)
                                 rows))))"

text \<open>\<open>GameRound.addRound\<close>. The result is the returned row and the table, or the error the
  call throws. The \<open>catch\<close> around the insert re-throws everything but \<open>23505\<close>, for which
  it returns the existing row if there is one.\<close>

definition addRound ::
  "int \<Rightarrow> game_round list \<Rightarrow> int \<Rightarrow> string \<Rightarrow> int \<Rightarrow> jsnum \<Rightarrow> int \<Rightarrow> jsnum \<Rightarrow> jsnum \<Rightarrow> jsnum \<Rightarrow> jsnum
     \<Rightarrow> db_error + (game_round \<times> game_round list)" where
  "addRound now rows b rid bc tba op mm tc cp lp =
     (case findByRoundId rows b rid of
        Some existingByRoundId \<Rightarrow> Inr (existingByRoundId, rows)
      | None \<Rightarrow>
          (let insert_it =
                 (case insertRound now rows b rid bc tba op mm tc cp lp of
                    Inr res \<Rightarrow> Inr res
                  | Inl UniqueViolation \<Rightarrow>
                      (case findByRoundId rows b rid of
                         Some existing \<Rightarrow> Inr (existing, rows)
                       | None \<Rightarrow> Inl UniqueViolation)
                  | Inl e \<Rightarrow> Inl e)
           in if isTemporaryId rid then
                (case findSimilarRound now rows b mm of
                   Some similarRound \<Rightarrow>
                     if isTemporaryId (round_id similarRound) then
                       (if \<bar>now - timestamp similarRound\<bar> < 30000
                        then Inr (similarRound, rows) else insert_it)
                     else insert_it
                 | None \<Rightarrow> insert_it)
              else insert_it))"

text \<open>\<open>DISTINCT ON (round_id) .. ORDER BY round_id, timestamp DESC\<close>: one row per round id,
  the latest.\<close>

function distinctOnRoundId :: "game_round list \<Rightarrow> game_round list" where
  "distinctOnRoundId [] = []"
| "distinctOnRoundId (r # rs) =
     (case latest (r # filter (\<lambda>x. round_id x = round_id r) rs) of
        None \<Rightarrow> []
      | Some r' \<Rightarrow> r' # distinctOnRoundId (filter (\<lambda>x. round_id x \<noteq> round_id r) rs))"
  by pat_completeness auto
termination
  by (relation "measure length") (auto simp: less_Suc_eq_le)

text \<open>\<open>GameRound.getLastResults(bookmaker_id, limit)\<close>: the distinct rows of the bookmaker,
  sorted by timestamp, newest first (the sort is stable), cut to \<open>limit\<close>. Rows with equal
  timestamps keep the order of the table here; the store orders them by round id.\<close>

definition getLastResults :: "game_round list \<Rightarrow> int \<Rightarrow> nat \<Rightarrow> game_round list" where
  "getLastResults rows b limit =
     take limit (sort_key (\<lambda>r. - timestamp r)
                   (distinctOnRoundId (filter (\<lambda>r. bookmaker_id r = b) rows)))"

text \<open>\<open>SignalModel.getPendingSignals\<close>. The caller only searches the result by id, so the
  \<open>ORDER BY signal_timestamp\<close> is left out.\<close>

definition getPendingSignals :: "signal list \<Rightarrow> int \<Rightarrow> signal list" where
  "getPendingSignals sigs b = filter (\<lambda>s. signal_bookmaker_id s = b \<and> status s = Pending) sigs"

section \<open>The in-process state of the two services and the store\<close>

datatype game_state = Bet | Run | End

text \<open>The per-source aggregate of \<open>roundData\<close> (webSocketService.js). Counts are integers
  (\<open>parseInt(..) || 0\<close> of an integer below \<open>10^21\<close> is that integer).\<close>

record round_data =
  betsCount :: int
  totalBetAmount :: jsnum
  onlinePlayers :: int
  roundId :: "string option"
  maxMultiplier :: jsnum
  currentMultiplier :: jsnum
  totalCashout :: jsnum
  cashoutRecords :: "string set"
  gameState :: game_state

text \<open>Everything the modelled calls read or write: the three tables and the sequence of
  \<open>signals.id\<close>; \<open>pendingSignals\<close> and \<open>processedResults\<close> of the pattern detection
  service; \<open>roundData\<close> and \<open>savedRounds\<close> of the websocket service. A key of
  \<open>savedRounds\<close>, the string \<open>`${bookmaker_id}_${roundId}`\<close>, is kept as the pair it encodes,
  a key of \<open>processedResults\<close> as the triple. \<open>backupLog\<close> records the calls of
  \<open>saveRoundToBackup\<close>, which only writes a log line.\<close>

record world =
  game_rounds :: "game_round list"
  signals :: "signal list"
  signal_results :: "signal_result list"
  signals_id_seq :: int
  pendingSignals :: "int \<Rightarrow> int option"
  processedResults :: "(int \<times> string \<times> jsnum) list"
  roundData :: "int \<Rightarrow> round_data option"
  savedRounds :: "(int \<times> string) set"
  backupLog :: "(int \<times> string option \<times> jsnum) list"

section \<open>Signal store operations (signalModel.js)\<close>

text \<open>\<open>SignalModel.createSignal\<close>: the id comes from the sequence of the serial column.\<close>

definition createSignal :: "int \<Rightarrow> jsnum list \<Rightarrow> world \<Rightarrow> signal \<times> world" where
  "createSignal bookmakerId patternDetected w =
     (let sg = \<lparr>signal_id = signals_id_seq w + 1, signal_bookmaker_id = bookmakerId,
                 pattern_detected = patternDetected, status = Pending, gale_used = False,
                 first_attempt_result = None, second_attempt_result = None\<rparr>
      in (sg, w\<lparr>signals := signals w @ [sg], signals_id_seq := signals_id_seq w + 1\<rparr>))"

text \<open>\<open>SignalModel.addSignalResult\<close>.\<close>

definition addSignalResult :: "int \<Rightarrow> int \<Rightarrow> jsnum \<Rightarrow> bool \<Rightarrow> string \<Rightarrow> world \<Rightarrow> db_error + world" where
  "addSignalResult signalId attemptNumber resultMultiplier isWin rid w =
     (case to_decimal 10 2 resultMultiplier of
        Inl e \<Rightarrow> Inl e
      | Inr m \<Rightarrow>
          Inr (w\<lparr>signal_results := signal_results w @
                  [\<lparr>result_signal_id = signalId, attempt_number = attemptNumber,
                    result_multiplier = m, is_win = isWin, result_round_id = rid\<rparr>]\<rparr>))"

text \<open>\<open>SignalModel.updateFirstAttempt\<close>: the \<open>UPDATE\<close>, then the attempt row. The two
  statements are not in a transaction.\<close>

definition updateFirstAttempt :: "int \<Rightarrow> jsnum \<Rightarrow> string \<Rightarrow> world \<Rightarrow> db_error + world" where
  "updateFirstAttempt signalId result rid w =
     (let isWin = js_gt result (Fin (3 / 2));
          newStatus = (if isWin then Won else Pending)
      in case to_decimal 10 2 result of
           Inl e \<Rightarrow> Inl e
         | Inr r \<Rightarrow>
             addSignalResult signalId 1 result isWin rid
               (w\<lparr>signals := map (\<lambda>s. if signal_id s = signalId
                                        then s\<lparr>first_attempt_result := Some r, status := newStatus\<rparr>
                                        else s) (signals w)\<rparr>))"

text \<open>\<open>SignalModel.updateSecondAttempt\<close>.\<close>

definition updateSecondAttempt :: "int \<Rightarrow> jsnum \<Rightarrow> string \<Rightarrow> world \<Rightarrow> db_error + world" where
  "updateSecondAttempt signalId result rid w =
     (let isWin = js_gt result (Fin (3 / 2));
          newStatus = (if isWin then Won else Lost)
      in case to_decimal 10 2 result of
           Inl e \<Rightarrow> Inl e
         | Inr r \<Rightarrow>
             addSignalResult signalId 2 result isWin rid
               (w\<lparr>signals := map (\<lambda>s. if signal_id s = signalId
                                        then s\<lparr>second_attempt_result := Some r, gale_used := True,
                                               status := newStatus\<rparr>
                                        else s) (signals w)\<rparr>))"

section \<open>Pattern detection service (patternDetectionService.js)\<close>

text \<open>\<open>parseFloat(row.max_multiplier) || 0\<close>: the driver returns a \<open>DECIMAL\<close> column as its
  decimal text, and \<open>parseFloat\<close> yields the nearest double.\<close>

definition parseFloat_decimal :: "rat \<Rightarrow> jsnum" where
  "parseFloat_decimal d = js_or (fl d) (Fin 0)"

text \<open>\<open>detectPattern\<close>: \<open>None\<close> stands for both \<open>false\<close> and \<open>{detected: false}\<close>, which the
  caller treats alike; \<open>Some pattern\<close> for \<open>{detected: true, pattern}\<close>.\<close>

definition detectPattern :: "game_round list \<Rightarrow> jsnum list option" where
  "detectPattern results =
     (if length results < 3 then None
      else
        let result1 = parseFloat_decimal (max_multiplier (results ! 0));
            result2 = parseFloat_decimal (max_multiplier (results ! 1));
            result3 = parseFloat_decimal (max_multiplier (results ! 2))
        in if js_gt result1 (Fin (3 / 2)) \<and> js_gt result2 (Fin (3 / 2)) \<and> js_lt result3 (Fin 2)
           then Some [result1, result2, result3] else None)"

text \<open>\<open>emitSignal\<close>. The socket event is not part of the state.\<close>

definition emitSignal :: "int \<Rightarrow> jsnum list \<Rightarrow> world \<Rightarrow> world" where
  "emitSignal bookmakerId pattern w =
     (if pendingSignals w bookmakerId \<noteq> None then w
      else
        let (sg, w') = createSignal bookmakerId pattern w
        in w'\<lparr>pendingSignals := (pendingSignals w')(bookmakerId \<mapsto> signal_id sg)\<rparr>)"

text \<open>\<open>this.pendingSignals.delete(bookmakerId)\<close>.\<close>

definition clearPending :: "int \<Rightarrow> world \<Rightarrow> world" where
  "clearPending bookmakerId w = w\<lparr>pendingSignals := (pendingSignals w)(bookmakerId := None)\<rparr>"

text \<open>\<open>verifySignal\<close>. \<open>!signal.first_attempt_result\<close> holds exactly for a NULL column: the
  driver returns a non-NULL \<open>DECIMAL\<close> as a non-empty string. An error of the store is
  caught and clears the pending slot. The attempt row binds the same value to the same
  column type as the \<open>UPDATE\<close> before it, so an error always comes from the \<open>UPDATE\<close>, before
  anything is written.\<close>

definition verifySignal :: "int \<Rightarrow> int \<Rightarrow> string \<Rightarrow> jsnum \<Rightarrow> world \<Rightarrow> world" where
  "verifySignal signalId bookmakerId rid multiplier w =
     (let multiplierValue = js_or multiplier (Fin 0);
          isWin = js_gt multiplierValue (Fin (3 / 2))
      in case find (\<lambda>s. signal_id s = signalId) (getPendingSignals (signals w) bookmakerId) of
           None \<Rightarrow> clearPending bookmakerId w
         | Some sg \<Rightarrow>
             if first_attempt_result sg = None then
               (case updateFirstAttempt signalId multiplierValue rid w of
                  Inl e \<Rightarrow> clearPending bookmakerId w
                | Inr w' \<Rightarrow> if isWin then clearPending bookmakerId w' else w')
             else
               (case updateSecondAttempt signalId multiplierValue rid w of
                  Inl e \<Rightarrow> clearPending bookmakerId w
                | Inr w' \<Rightarrow> clearPending bookmakerId w'))"

text \<open>The loop of \<open>processNewResult\<close> that drops repeated round ids, keeping the first.\<close>

fun uniqueResults :: "string list \<Rightarrow> game_round list \<Rightarrow> game_round list" where
  "uniqueResults seenRoundIds [] = []"
| "uniqueResults seenRoundIds (r # rs) =
     (if round_id r \<in> set seenRoundIds then uniqueResults seenRoundIds rs
      else r # uniqueResults (seenRoundIds @ [round_id r]) rs)"

text \<open>The idempotency guard: add the key; beyond 1000 entries keep the last 500.\<close>

definition markProcessed :: "int \<times> string \<times> jsnum \<Rightarrow> world \<Rightarrow> world" where
  "markProcessed resultKey w =
     (let added = processedResults w @ [resultKey]
      in w\<lparr>processedResults :=
             (if 1000 < length added then drop (length added - 500) added else added)\<rparr>)"

text \<open>The first step of \<open>processNewResult\<close> after the guard: a pending signal of the
  source, if there is one, is verified against the new result. A pending id is truthy
  unless 0.\<close>

definition resolvePending :: "int \<Rightarrow> string \<Rightarrow> jsnum \<Rightarrow> world \<Rightarrow> world" where
  "resolvePending bookmakerId rid multiplier w =
     (case pendingSignals w bookmakerId of
        Some pendingSignalId \<Rightarrow>
          if pendingSignalId \<noteq> 0
          then verifySignal pendingSignalId bookmakerId rid multiplier w
          else w
      | None \<Rightarrow> w)"

text \<open>\<open>processNewResult\<close>. No modelled statement of its body throws past \<open>verifySignal\<close>'s own
  handler, so the outer \<open>catch\<close> has no branch here.\<close>

definition processNewResult :: "int \<Rightarrow> string \<Rightarrow> jsnum \<Rightarrow> world \<Rightarrow> world" where
  "processNewResult bookmakerId rid multiplier w =
     (let resultKey = (bookmakerId, rid, multiplier)
      in if resultKey \<in> set (processedResults w) then w
         else
           let w1 = markProcessed resultKey w;
               w2 = resolvePending bookmakerId rid multiplier w1;
               lastResults = getLastResults (game_rounds w2) bookmakerId 5;
               unique = uniqueResults [] lastResults
           in if 3 \<le> length unique then
                (case detectPattern unique of
                   Some pattern \<Rightarrow> emitSignal bookmakerId pattern w2
                 | None \<Rightarrow> w2)
              else w2)"

section \<open>Persisting a round (webSocketService.js)\<close>

text \<open>The literal \<open>999999999999999999.99\<close>, as the double it denotes.\<close>

definition MAX_MULTIPLIER_VALUE :: jsnum where
  "MAX_MULTIPLIER_VALUE = fl (99999999999999999999 / 100)"

text \<open>\<open>safeDecimalValue(value, decimals, maxValue)\<close>; the defaults of the source are
  \<open>decimals = 2\<close> and \<open>maxValue = 999999999999999999.99\<close>.\<close>

definition safeDecimalValue :: "jsnum \<Rightarrow> nat \<Rightarrow> jsnum \<Rightarrow> jsnum" where
  "safeDecimalValue val decimals maxValue =
     (if \<not> isFinite val \<or> isNaN val then Fin 0
      else
        let val' = (if js_gt val maxValue then maxValue else val);
            multiplier = Math_pow10 decimals
        in js_div (Math_round (js_mul val' multiplier)) multiplier)"

text \<open>\<open>saveRoundToBackup\<close>: a log line with the round id and the \<open>crashX\<close> of the call.\<close>

definition saveRoundToBackup :: "int \<Rightarrow> round_data \<Rightarrow> jsnum \<Rightarrow> world \<Rightarrow> world" where
  "saveRoundToBackup b rd crashX w = w\<lparr>backupLog := backupLog w @ [(b, roundId rd, crashX)]\<rparr>"

text \<open>The statements of \<open>saveRoundData\<close> after a row has been obtained (\<open>savedRound\<close>): the
  key is marked as saved and the result goes to the pattern detection service, with the
  round id \<open>String(savedRound.round_id || roundData.roundId)\<close>.\<close>

definition afterSave :: "int \<Rightarrow> string \<Rightarrow> jsnum \<Rightarrow> game_round \<Rightarrow> world \<Rightarrow> world" where
  "afterSave b rid validCrashX savedRound w =
     (let w' = w\<lparr>savedRounds := insert (b, rid) (savedRounds w)\<rparr>;
          current = (case roundData w' b of
                       Some rd \<Rightarrow> (case roundId rd of Some r \<Rightarrow> r | None \<Rightarrow> ''null'')
                     | None \<Rightarrow> ''null'')
      in processNewResult b (if round_id savedRound \<noteq> [] then round_id savedRound else current)
           validCrashX w')"

text \<open>The values computed at the head of the \<open>try\<close> block of \<open>saveRoundData\<close>, made
  safe: \<open>(safeBetAmount, safeCashout, safeProfit, safeLossPercent)\<close>. Only the multiplier
  is passed its maximum explicitly; the others take the default, the same literal.\<close>

definition safeAmounts :: "round_data \<Rightarrow> jsnum \<times> jsnum \<times> jsnum \<times> jsnum" where
  "safeAmounts rd =
     (let totalBetAmount' = js_or (totalBetAmount rd) (Fin 0);
          totalCashout' = js_or (totalCashout rd) (Fin 0);
          casinoProfit = js_sub totalBetAmount' totalCashout';
          lossPercentage = (if js_gt totalBetAmount' (Fin 0)
                            then js_mul (js_div casinoProfit totalBetAmount') (Fin 100)
                            else Fin 0)
      in (safeDecimalValue totalBetAmount' 2 MAX_MULTIPLIER_VALUE,
          safeDecimalValue totalCashout' 2 MAX_MULTIPLIER_VALUE,
          safeDecimalValue casinoProfit 2 MAX_MULTIPLIER_VALUE,
          safeDecimalValue lossPercentage 2 MAX_MULTIPLIER_VALUE))"

text \<open>The \<open>try\<close> block of \<open>saveRoundData\<close>: \<open>addRound\<close> with the safe values, and the
  handlers. \<open>rd\<close> is the aggregate, \<open>rid\<close> its round id at this point, \<open>crashX\<close> the argument
  of the call.
  \<^item> success: an id that differs from the aggregate's replaces it in memory;
  \<^item> \<open>23505\<close>: the existing row is taken, or the call returns if there is none;
  \<^item> \<open>22003\<close>: one retry with \<open>Math.min(validCrashX, MAX_MULTIPLIER_VALUE)\<close>;
  \<^item> an error of the retry reaches the outer handler, which writes the backup log.\<close>

definition persistRound :: "int \<Rightarrow> int \<Rightarrow> string \<Rightarrow> jsnum \<Rightarrow> jsnum \<Rightarrow> round_data \<Rightarrow> world \<Rightarrow> world" where
  "persistRound now b rid validCrashX crashX rd w =
     (case safeAmounts rd of
        (safeBetAmount, safeCashout, safeProfit, safeLossPercent) \<Rightarrow>
          (case addRound now (game_rounds w) b rid (betsCount rd) safeBetAmount (onlinePlayers rd)
                  (safeDecimalValue validCrashX 2 MAX_MULTIPLIER_VALUE)
                  safeCashout safeProfit safeLossPercent of
             Inr (savedRound, rows') \<Rightarrow>
               (let w1 = w\<lparr>game_rounds := rows'\<rparr>;
                    w2 = (if round_id savedRound \<noteq> rid
                          then w1\<lparr>savedRounds :=
                                    insert (b, round_id savedRound) (savedRounds w1 - {(b, rid)}),
                                  roundData :=
                                    (roundData w1)(b \<mapsto> rd\<lparr>roundId := Some (round_id savedRound)\<rparr>)\<rparr>
                          else w1)
                in afterSave b rid validCrashX savedRound w2)
           | Inl UniqueViolation \<Rightarrow>
               (case findByRoundId (game_rounds w) b rid of
                  Some existing \<Rightarrow> afterSave b rid validCrashX existing w
                | None \<Rightarrow> w)
           | Inl NumericOverflow \<Rightarrow>
               (let limitedMultiplier = Math_min validCrashX MAX_MULTIPLIER_VALUE
                in case addRound now (game_rounds w) b rid (betsCount rd) safeBetAmount
                          (onlinePlayers rd)
                          (safeDecimalValue limitedMultiplier 2 MAX_MULTIPLIER_VALUE)
                          safeCashout safeProfit safeLossPercent of
                     Inr (savedRound, rows') \<Rightarrow>
                       afterSave b rid validCrashX savedRound (w\<lparr>game_rounds := rows'\<rparr>)
                   | Inl e \<Rightarrow> saveRoundToBackup b rd crashX w)))"

text \<open>The validation at the head of \<open>saveRoundData\<close>, in the order of the source:
  \<open>parseFloat(crashX) || parseFloat(roundData.maxMultiplier) || 0\<close>, the test \<open>\<le> 0\<close>, the
  clamp to \<open>MAX_MULTIPLIER_VALUE\<close>, the \<open>isFinite\<close>/\<open>isNaN\<close> test, the rounding to two
  decimals. \<open>None\<close> is a \<open>return\<close>. Every caller passes a number, on which \<open>parseFloat\<close>
  is the identity.\<close>

definition validateCrashX :: "jsnum \<Rightarrow> round_data \<Rightarrow> jsnum option" where
  "validateCrashX crashX rd =
     (let validCrashX0 = js_or (js_or crashX (maxMultiplier rd)) (Fin 0)
      in if js_le validCrashX0 (Fin 0) then None
         else
           let validCrashX1 = (if js_gt validCrashX0 MAX_MULTIPLIER_VALUE
                               then MAX_MULTIPLIER_VALUE else validCrashX0)
           in if \<not> isFinite validCrashX1 \<or> isNaN validCrashX1 then None
              else Some (js_div (Math_round (js_mul validCrashX1 (Fin 100))) (Fin 100)))"

text \<open>\<open>roundData.roundId\<close> after the \<open>if (!roundData.roundId)\<close> of \<open>saveRoundData\<close>: a missing
  or empty id is replaced by \<open>`temp_${bookmaker_id}_${Date.now()}`\<close>.\<close>

definition ensureRoundId :: "int \<Rightarrow> int \<Rightarrow> round_data \<Rightarrow> string" where
  "ensureRoundId now b rd =
     (case roundId rd of
        Some r \<Rightarrow> if r = [] then ''temp_'' @ show_int b @ ''_'' @ show_int now else r
      | None \<Rightarrow> ''temp_'' @ show_int b @ ''_'' @ show_int now)"

text \<open>The similarity check of \<open>saveRoundData\<close> for a synthesized id: the similar row to be
  renamed, if it is itself synthesized and less than 30 seconds old.\<close>

definition similarToMerge :: "int \<Rightarrow> game_round list \<Rightarrow> int \<Rightarrow> string \<Rightarrow> jsnum \<Rightarrow> game_round option" where
  "similarToMerge now rows b rid validCrashX =
     (if isTemporaryId rid then
        (case findSimilarRound now rows b validCrashX of
           Some similarRound \<Rightarrow>
             if isTemporaryId (round_id similarRound) \<and> \<bar>now - timestamp similarRound\<bar> < 30000
             then Some similarRound else None
         | None \<Rightarrow> None)
      else None)"

text \<open>\<open>saveRoundData(bookmaker_id, bookmaker_name, crashX)\<close> at time \<open>now\<close> (milliseconds;
  \<open>Date.now()\<close>, \<open>new Date()\<close> and the store's \<open>NOW()\<close> within one call are this one
  instant). \<open>bookmaker_name\<close> is not used by the body.\<close>

definition saveRoundData :: "int \<Rightarrow> int \<Rightarrow> jsnum \<Rightarrow> world \<Rightarrow> world" where
  "saveRoundData now b crashX w =
     (case roundData w b of
        None \<Rightarrow> w
      | Some rd0 \<Rightarrow>
          (case validateCrashX crashX rd0 of
             None \<Rightarrow> w
           | Some validCrashX \<Rightarrow>
               let rid = ensureRoundId now b rd0;
                   rd1 = rd0\<lparr>roundId := Some rid\<rparr>;
                   w1 = w\<lparr>roundData := (roundData w)(b \<mapsto> rd1)\<rparr>
               in if (b, rid) \<in> savedRounds w1 then w1
                  else
                    (case findByRoundId (game_rounds w1) b rid of
                       Some existingByRoundId \<Rightarrow>
                         w1\<lparr>savedRounds := insert (b, rid) (savedRounds w1)\<rparr>
                     | None \<Rightarrow>
                         (case similarToMerge now (game_rounds w1) b rid validCrashX of
                            Some similarRound \<Rightarrow>
                              w1\<lparr>game_rounds :=
                                   updateRoundId (game_rounds w1) (round_id similarRound) rid b,
                                 savedRounds := insert (b, rid) (savedRounds w1)\<rparr>
                          | None \<Rightarrow>
                              let rd2 = (if js_gt validCrashX (maxMultiplier rd1)
                                         then rd1\<lparr>maxMultiplier := validCrashX\<rparr> else rd1);
                                  w2 = w1\<lparr>roundData := (roundData w1)(b \<mapsto> rd2)\<rparr>
                              in persistRound now b rid validCrashX crashX rd2 w2))))"

section \<open>Notions used to state the properties\<close>

text \<open>The row \<open>saveRoundData\<close> hands to the store for an aggregate \<open>rd\<close>, a round id and a
  validated multiplier \<open>v\<close> (the arguments of its call of \<open>addRound\<close>), checked against the
  columns; \<open>Inl\<close> when the store refuses a value.\<close>

definition roundRow :: "int \<Rightarrow> int \<Rightarrow> string \<Rightarrow> jsnum \<Rightarrow> round_data \<Rightarrow> db_error + game_round" where
  "roundRow now b rid v rd =
     (case safeAmounts rd of
        (safeBetAmount, safeCashout, safeProfit, safeLossPercent) \<Rightarrow>
          roundColumns now b rid (betsCount rd) safeBetAmount (onlinePlayers rd)
            (safeDecimalValue v 2 MAX_MULTIPLIER_VALUE) safeCashout safeProfit safeLossPercent)"

text \<open>The rows of a table with a given natural key.\<close>

definition rowsOfKey :: "int \<Rightarrow> string \<Rightarrow> game_round list \<Rightarrow> game_round list" where
  "rowsOfKey b rid rows = filter (\<lambda>r. bookmaker_id r = b \<and> round_id r = rid) rows"

text \<open>A finalize call for the round \<open>rid\<close> of source \<open>b\<close>, as the message handlers make it: by
  then the aggregate of \<open>b\<close> carries \<open>rid\<close> and whatever counts and amounts the messages have
  left in it (\<open>agg\<close>); \<open>cleared\<close> tells whether the ten-minute timer has emptied
  \<open>savedRounds\<close> since the call before.\<close>

definition finalizeCall :: "int \<Rightarrow> string \<Rightarrow> int \<times> jsnum \<times> round_data \<times> bool \<Rightarrow> world \<Rightarrow> world" where
  "finalizeCall b rid c w =
     (case c of
        (now, crashX, agg, cleared) \<Rightarrow>
          saveRoundData now b crashX
            (w\<lparr>roundData := (roundData w)(b \<mapsto> agg\<lparr>roundId := Some rid\<rparr>),
               savedRounds := (if cleared then {} else savedRounds w)\<rparr>))"

text \<open>The recent rounds \<open>processNewResult\<close> looks at for a source: the five latest, newest
  first, without repeated round ids.\<close>

definition recentUnique :: "world \<Rightarrow> int \<Rightarrow> game_round list" where
  "recentUnique w b = uniqueResults [] (getLastResults (game_rounds w) b 5)"

text \<open>The trigger as the specification words it, on the multipliers of a newest-first list
  as JavaScript reads them: \<open>multiplier[0] > 1.50\<close>, \<open>multiplier[1] > 1.50\<close>,
  \<open>multiplier[2] < 2.00\<close>.\<close>

definition spec_trigger :: "game_round list \<Rightarrow> bool" where
  "spec_trigger rs =
     (js_gt (parseFloat_decimal (max_multiplier (rs ! 0))) (Fin (3 / 2)) \<and>
      js_gt (parseFloat_decimal (max_multiplier (rs ! 1))) (Fin (3 / 2)) \<and>
      js_lt (parseFloat_decimal (max_multiplier (rs ! 2))) (Fin 2))"


text \<open>The attempt rows of a signal.\<close>

definition attemptsOf :: "world \<Rightarrow> int \<Rightarrow> signal_result list" where
  "attemptsOf w sid = filter (\<lambda>r. result_signal_id r = sid) (signal_results w)"


text \<open>What holds in every such state: signal ids are distinct, positive and issued by the
  sequence, and a pending slot holds the id of a signal of that source whose status is
  \<open>pending\<close>.\<close>

definition signal_inv :: "world \<Rightarrow> bool" where
  "signal_inv w =
     (distinct (map signal_id (signals w)) \<and> 0 \<le> signals_id_seq w \<and>
      (\<forall>s \<in> set (signals w). 0 < signal_id s \<and> signal_id s \<le> signals_id_seq w) \<and>
      (\<forall>b sid. pendingSignals w b = Some sid \<longrightarrow>
         (\<exists>s \<in> set (signals w). signal_id s = sid \<and> signal_bookmaker_id s = b \<and>
                                 status s = Pending)))"

section \<open>Concrete inputs\<close>

text \<open>An aggregate at the end of a round: 12 bets of 250.00 in total, 180.00 cashed out,
  crash multiplier 2.00.\<close>

definition aggregate_example :: round_data where
  "aggregate_example =
     \<lparr>betsCount = 12, totalBetAmount = Fin 250, onlinePlayers = 40, roundId = None,
      maxMultiplier = Fin 2, currentMultiplier = Fin 2, totalCashout = Fin 180,
      cashoutRecords = {}, gameState = End\<rparr>"

text \<open>The row the store keeps for that aggregate under round id 555 of source 1.\<close>

definition row_example :: game_round where
  "row_example =
     \<lparr>bookmaker_id = 1, round_id = ''555'', bets_count = 12, total_bet_amount = 250,
      online_players = 40, max_multiplier = 2, total_cashout = 180, casino_profit = 70,
      loss_percentage = 28, timestamp = 1000\<rparr>"

text \<open>A freshly started process on an empty store.\<close>

definition world_empty :: world where
  "world_empty =
     \<lparr>game_rounds = [], signals = [], signal_results = [], signals_id_seq = 0,
      pendingSignals = (\<lambda>_. None), processedResults = [], roundData = (\<lambda>_. None),
      savedRounds = {}, backupLog = []\<rparr>"

text \<open>The same process when source 1 has reached the end of round 555.\<close>

definition world_round_555 :: world where
  "world_round_555 =
     world_empty\<lparr>roundData := [1 \<mapsto> aggregate_example\<lparr>roundId := Some ''555''\<rparr>]\<rparr>"

text \<open>The same, when the store already holds the row of round 555 (and the in-process set of
  saved rounds has been emptied since).\<close>

definition world_row_555 :: world where
  "world_row_555 = world_round_555\<lparr>game_rounds := [row_example]\<rparr>"

text \<open>The double the literal \<open>1e30\<close> denotes.\<close>

definition js_1e30 :: jsnum where
  "js_1e30 = Fin 1000000000000000019884624838656"

text \<open>An aggregate whose bet total has become infinite, and the row the store keeps for it.\<close>

definition aggregate_infinite :: round_data where
  "aggregate_infinite = aggregate_example\<lparr>totalBetAmount := PInf\<rparr>"

definition row_infinite :: game_round where
  "row_infinite = row_example\<lparr>total_bet_amount := 0, casino_profit := 0, loss_percentage := 0\<rparr>"




text \<open>A stored round of source 1 with a given id, multiplier and time.\<close>

definition stored_round :: "string \<Rightarrow> rat \<Rightarrow> int \<Rightarrow> game_round" where
  "stored_round rid m ts =
     \<lparr>bookmaker_id = 1, round_id = rid, bets_count = 0, total_bet_amount = 0,
      online_players = 0, max_multiplier = m, total_cashout = 0, casino_profit = 0,
      loss_percentage = 0, timestamp = ts\<rparr>"

text \<open>Three histories of source 1, oldest row first; newest first they read
  \<open>[1.80, 1.60, 1.90]\<close>, \<open>[1.80, 1.60, 2.10]\<close> and \<open>[1.40, 1.60, 1.90]\<close>.\<close>

definition world_180_160_190 :: world where
  "world_180_160_190 =
     world_empty\<lparr>game_rounds := [stored_round ''r1'' (19 / 10) 1000, stored_round ''r2'' (8 / 5) 2000,
                                 stored_round ''r3'' (9 / 5) 3000]\<rparr>"

definition world_180_160_210 :: world where
  "world_180_160_210 =
     world_empty\<lparr>game_rounds := [stored_round ''r1'' (21 / 10) 1000, stored_round ''r2'' (8 / 5) 2000,
                                 stored_round ''r3'' (9 / 5) 3000]\<rparr>"

definition world_140_160_190 :: world where
  "world_140_160_190 =
     world_empty\<lparr>game_rounds := [stored_round ''r1'' (19 / 10) 1000, stored_round ''r2'' (8 / 5) 2000,
                                 stored_round ''r3'' (7 / 5) 3000]\<rparr>"

text \<open>The first history when the result of round \<open>r3\<close> has been delivered before.\<close>

definition js_180 :: jsnum where
  "js_180 = fl (9 / 5)"

definition world_redelivered :: world where
  "world_redelivered = world_180_160_190\<lparr>processedResults := [(1, ''r3'', js_180)]\<rparr>"

text \<open>The first history after the result of round \<open>r3\<close> has been processed: signal 1 of
  source 1 is pending.\<close>

definition signal_example :: signal where
  "signal_example =
     \<lparr>signal_id = 1, signal_bookmaker_id = 1,
      pattern_detected = [js_180, parseFloat_decimal (8 / 5), parseFloat_decimal (19 / 10)],
      status = Pending, gale_used = False,
      first_attempt_result = None, second_attempt_result = None\<rparr>"

definition world_pending :: world where
  "world_pending =
     world_180_160_190\<lparr>signals := [signal_example], signals_id_seq := 1,
                         pendingSignals := (\<lambda>_. None)(1 \<mapsto> 1),
                         processedResults := [(1, ''r3'', js_180)]\<rparr>"

section \<open>JavaScript values and exceptions of the decoders\<close>

text \<open>The values a decoder returns: \<open>undefined\<close>, \<open>null\<close>, booleans, numbers, strings, Buffers,
  arrays, and objects kept as their own properties in insertion order. A string is kept as
  the bytes of its UTF-8 encoding; every property name the code uses is ASCII.\<close>

datatype jsval =
    JUndefined
  | JNull
  | JBool bool
  | JNum jsnum
  | JStr string
  | JBuffer "byte list"
  | JArr "jsval list"
  | JObj "(string \<times> jsval) list"

text \<open>What is thrown: \<open>OutOfRange\<close> is the \<open>RangeError\<close> of a Buffer read outside the buffer,
  \<open>Unsupported t\<close> the \<open>Error\<close> of \<open>decodeValue\<close> for an unknown tag, \<open>StackOverflow\<close> the
  \<open>RangeError\<close> of the engine when the call stack is exhausted, \<open>TypeError\<close> a property read
  on \<open>null\<close> or \<open>undefined\<close>, \<open>LibraryError\<close> an \<open>Error\<close> thrown by zlib or msgpack-lite. All
  are \<open>Error\<close> objects, so that \<open>error.message\<close> in a handler is a string.\<close>

datatype js_error = OutOfRange | Unsupported nat | StackOverflow | TypeError | LibraryError

text \<open>The functions of Node and of the two libraries that the decoders call are parameters:
  \<open>Buffer.prototype.toString('utf8')\<close>, \<open>zlib.inflateSync\<close> and \<open>msgpack.decode\<close>
  (msgpack-lite). Each may return or throw.\<close>

record node =
  toString_utf8 :: "byte list \<Rightarrow> js_error + string"
  inflateSync :: "byte list \<Rightarrow> js_error + byte list"
  msgpack_decode :: "byte list \<Rightarrow> js_error + jsval"

text \<open>\<open>try { body } catch (error) { handler }\<close> and the sequencing of two computations that
  may throw.\<close>

definition tryCatch :: "'e + 'a \<Rightarrow> ('e \<Rightarrow> 'e + 'a) \<Rightarrow> 'e + 'a" where
  "tryCatch body handler = (case body of Inl error \<Rightarrow> handler error | Inr v \<Rightarrow> Inr v)"

definition bindE :: "'e + 'a \<Rightarrow> ('a \<Rightarrow> 'e + 'b) \<Rightarrow> 'e + 'b" where
  "bindE m f = (case m of Inl error \<Rightarrow> Inl error | Inr v \<Rightarrow> f v)"

text \<open>Truthiness, \<open>typeof\<close>, and a property read \<open>v.name\<close> for a value that is neither \<open>null\<close>
  nor \<open>undefined\<close>. No prototype has a property of one of the names the code reads, so the
  read is \<open>undefined\<close> on anything but an object that owns the property.\<close>

definition toBoolean :: "jsval \<Rightarrow> bool" where
  "toBoolean v =
     (case v of
        JUndefined \<Rightarrow> False
      | JNull \<Rightarrow> False
      | JBool b \<Rightarrow> b
      | JNum x \<Rightarrow> truthy x
      | JStr s \<Rightarrow> s \<noteq> []
      | _ \<Rightarrow> True)"

definition typeof :: "jsval \<Rightarrow> string" where
  "typeof v =
     (case v of
        JUndefined \<Rightarrow> ''undefined''
      | JBool b \<Rightarrow> ''boolean''
      | JNum x \<Rightarrow> ''number''
      | JStr s \<Rightarrow> ''string''
      | _ \<Rightarrow> ''object'')"

definition nullish :: "jsval \<Rightarrow> bool" where
  "nullish v = (v = JUndefined \<or> v = JNull)"

definition getProperty :: "jsval \<Rightarrow> string \<Rightarrow> jsval" where
  "getProperty v name =
     (case v of
        JObj ps \<Rightarrow> (case map_of ps name of Some x \<Rightarrow> x | None \<Rightarrow> JUndefined)
      | _ \<Rightarrow> JUndefined)"

text \<open>\<open>result[key] = value\<close> on a plain object: the property is replaced or added. The key
  \<open>__proto__\<close> names the prototype accessor; the assignment creates no own property.\<close>

definition setProperty :: "(string \<times> jsval) list \<Rightarrow> string \<Rightarrow> jsval \<Rightarrow> (string \<times> jsval) list" where
  "setProperty ps key v =
     (if key = ''__proto__'' then ps
      else if key \<in> fst ` set ps then map (\<lambda>(k, x). if k = key then (k, v) else (k, x)) ps
      else ps @ [(key, v)])"

section \<open>The Format-A decoder (decoder.js)\<close>

text \<open>Big-endian bytes as an unsigned and as a two's complement integer.\<close>

definition be_nat :: "byte list \<Rightarrow> nat" where
  "be_nat bs = foldl (\<lambda>acc b. acc * 256 + unat b) 0 bs"

definition be_int :: "byte list \<Rightarrow> int" where
  "be_int bs =
     (let n = int (be_nat bs); m = 2 ^ (8 * length bs)
      in if m \<le> 2 * n then n - m else n)"

text \<open>The value of an IEEE-754 bit pattern, binary32 and binary64, given as the unsigned
  integer of its bytes.\<close>

definition float32_of_bits :: "nat \<Rightarrow> jsnum" where
  "float32_of_bits n =
     (let s = n div 2 ^ 31; e = (n div 2 ^ 23) mod 2 ^ 8; f = n mod 2 ^ 23;
          sign = (if s = 0 then 1 else - 1)
      in if e = 255 then (if f = 0 then (if s = 0 then PInf else NInf) else NaN)
         else if e = 0 then Fin (sign * of_nat f * pow2 (- 149))
         else Fin (sign * of_nat (2 ^ 23 + f) * pow2 (int e - 150)))"

definition float64_of_bits :: "nat \<Rightarrow> jsnum" where
  "float64_of_bits n =
     (let s = n div 2 ^ 63; e = (n div 2 ^ 52) mod 2 ^ 11; f = n mod 2 ^ 52;
          sign = (if s = 0 then 1 else - 1)
      in if e = 2047 then (if f = 0 then (if s = 0 then PInf else NInf) else NaN)
         else if e = 0 then Fin (sign * of_nat f * pow2 (- 1074))
         else Fin (sign * of_nat (2 ^ 52 + f) * pow2 (int e - 1075)))"

text \<open>\<open>buf.slice(start, end)\<close> for non-negative arguments: both are clamped to the length.
  \<open>toString('hex')\<close>.\<close>

definition slice :: "byte list \<Rightarrow> nat \<Rightarrow> nat \<Rightarrow> byte list" where
  "slice buf start endPos = drop start (take endPos buf)"

definition hex_digit :: "nat \<Rightarrow> char" where
  "hex_digit n = ''0123456789abcdef'' ! n"

definition toString_hex :: "byte list \<Rightarrow> string" where
  "toString_hex bs = concat (map (\<lambda>b. [hex_digit (unat b div 16), hex_digit (unat b mod 16)]) bs)"

text \<open>A read of \<open>n\<close> bytes at an offset of a Buffer (\<open>readUInt8\<close>, \<open>readInt16BE\<close>, ...): Node
  throws a \<open>RangeError\<close> unless the \<open>n\<close> bytes lie inside the buffer.\<close>

definition readBytes :: "byte list \<Rightarrow> nat \<Rightarrow> nat \<Rightarrow> js_error + byte list" where
  "readBytes buf offset n =
     (if offset + n \<le> length buf then Inr (take n (drop offset buf)) else Inl OutOfRange)"

text \<open>\<open>class DataStream\<close>. Every method reads at \<open>byteOffset + position\<close> and then advances
  \<open>position\<close>; a read that throws leaves it.\<close>

record data_stream =
  buffer :: "byte list"
  byteOffset :: nat
  position :: nat

definition DataStream :: "byte list \<Rightarrow> data_stream" where
  "DataStream buf = \<lparr>buffer = buf, byteOffset = 0, position = 0\<rparr>"

definition readAt :: "nat \<Rightarrow> data_stream \<Rightarrow> js_error + (byte list \<times> data_stream)" where
  "readAt n ds =
     (case readBytes (buffer ds) (byteOffset ds + position ds) n of
        Inl error \<Rightarrow> Inl error
      | Inr bs \<Rightarrow> Inr (bs, ds\<lparr>position := position ds + n\<rparr>))"

definition valueOf :: "('a \<Rightarrow> 'b) \<Rightarrow> js_error + ('a \<times> data_stream) \<Rightarrow> js_error + ('b \<times> data_stream)" where
  "valueOf f r = (case r of Inl error \<Rightarrow> Inl error | Inr (x, ds) \<Rightarrow> Inr (f x, ds))"

definition readInt8 :: "data_stream \<Rightarrow> js_error + (int \<times> data_stream)" where
  "readInt8 ds = valueOf be_int (readAt 1 ds)"

definition readUInt8 :: "data_stream \<Rightarrow> js_error + (nat \<times> data_stream)" where
  "readUInt8 ds = valueOf be_nat (readAt 1 ds)"

definition readInt16 :: "data_stream \<Rightarrow> js_error + (int \<times> data_stream)" where
  "readInt16 ds = valueOf be_int (readAt 2 ds)"

definition readUInt16 :: "data_stream \<Rightarrow> js_error + (nat \<times> data_stream)" where
  "readUInt16 ds = valueOf be_nat (readAt 2 ds)"

definition readInt32 :: "data_stream \<Rightarrow> js_error + (int \<times> data_stream)" where
  "readInt32 ds = valueOf be_int (readAt 4 ds)"

text \<open>\<open>readInt64\<close>: \<open>Number(value)\<close> of the BigInt is the nearest double.\<close>

definition readInt64 :: "data_stream \<Rightarrow> js_error + (jsnum \<times> data_stream)" where
  "readInt64 ds = valueOf (\<lambda>bs. fl (of_int (be_int bs))) (readAt 8 ds)"

definition readFloat32 :: "data_stream \<Rightarrow> js_error + (jsnum \<times> data_stream)" where
  "readFloat32 ds = valueOf (\<lambda>bs. float32_of_bits (be_nat bs)) (readAt 4 ds)"

definition readFloat64 :: "data_stream \<Rightarrow> js_error + (jsnum \<times> data_stream)" where
  "readFloat64 ds = valueOf (\<lambda>bs. float64_of_bits (be_nat bs)) (readAt 8 ds)"

text \<open>\<open>readUtf8String\<close> and \<open>readByteArray\<close> slice, which never throws, and set \<open>position\<close> to
  the end asked for, also when that is behind the end of the buffer.\<close>

definition readUtf8String :: "node \<Rightarrow> nat \<Rightarrow> data_stream \<Rightarrow> string \<times> data_stream" where
  "readUtf8String rt len ds =
     (let endPos = position ds + len;
          stringBytes = slice (buffer ds) (byteOffset ds + position ds) (byteOffset ds + endPos)
      in (case toString_utf8 rt stringBytes of
            Inr s \<Rightarrow> s
          | Inl e \<Rightarrow> toString_hex stringBytes,
          ds\<lparr>position := endPos\<rparr>))"

definition readByteArray :: "nat \<Rightarrow> data_stream \<Rightarrow> jsval \<times> data_stream" where
  "readByteArray len ds =
     (let endPos = position ds + len;
          byteArray = slice (buffer ds) (byteOffset ds + position ds) (byteOffset ds + endPos)
      in (JArr (map (\<lambda>b. JNum (Fin (of_nat (unat b)))) byteArray), ds\<lparr>position := endPos\<rparr>))"

text \<open>\<open>Array.from({ length: n }, () => read())\<close>: the reads in order; the first that throws
  ends it.\<close>

fun arrayFrom :: "nat \<Rightarrow> (data_stream \<Rightarrow> js_error + (jsval \<times> data_stream)) \<Rightarrow> data_stream
                    \<Rightarrow> js_error + (jsval list \<times> data_stream)" where
  "arrayFrom 0 f ds = Inr ([], ds)"
| "arrayFrom (Suc n) f ds =
     (case f ds of
        Inl error \<Rightarrow> Inl error
      | Inr (v, ds1) \<Rightarrow>
          (case arrayFrom n f ds1 of
             Inl error \<Rightarrow> Inl error
           | Inr (vs, ds2) \<Rightarrow> Inr (v # vs, ds2)))"

definition jsInt :: "int \<Rightarrow> jsval" where
  "jsInt i = JNum (Fin (of_int i))"

definition jsBool :: "nat \<Rightarrow> jsval" where
  "jsBool n = JBool (n \<noteq> 0)"

text \<open>The cases of the \<open>switch\<close> of \<open>decodeValue\<close> that do not call back into the decoder: the
  tags \<open>0x00\<close> to \<open>0x10\<close>, and the \<open>default\<close> that throws.\<close>

definition decodeLeaf :: "node \<Rightarrow> data_stream \<Rightarrow> nat \<Rightarrow> js_error + (jsval \<times> data_stream)" where
  "decodeLeaf rt ds valueType =
     (if valueType = 0x00 then Inr (JNull, ds)
      else if valueType = 0x01 then valueOf jsBool (readUInt8 ds)
      else if valueType = 0x02 then valueOf jsInt (readInt8 ds)
      else if valueType = 0x03 then valueOf jsInt (readInt16 ds)
      else if valueType = 0x04 then valueOf jsInt (readInt32 ds)
      else if valueType = 0x05 then valueOf JNum (readInt64 ds)
      else if valueType = 0x06 then valueOf JNum (readFloat32 ds)
      else if valueType = 0x07 then valueOf JNum (readFloat64 ds)
      else if valueType = 0x08 then
        (case readUInt16 ds of
           Inl error \<Rightarrow> Inl error
         | Inr (strLength, ds1) \<Rightarrow>
             (case readUtf8String rt strLength ds1 of (s, ds2) \<Rightarrow> Inr (JStr s, ds2)))
      else if valueType = 0x09 then
        (case readUInt16 ds of
           Inl error \<Rightarrow> Inl error
         | Inr (boolLength, ds1) \<Rightarrow>
             valueOf JArr (arrayFrom boolLength (\<lambda>d. valueOf jsBool (readUInt8 d)) ds1))
      else if valueType = 0x0A then
        (case readUInt16 ds of
           Inl error \<Rightarrow> Inl error
         | Inr (byteLength, ds1) \<Rightarrow> Inr (readByteArray byteLength ds1))
      else if valueType = 0x0B then
        (case readUInt16 ds of
           Inl error \<Rightarrow> Inl error
         | Inr (shortLength, ds1) \<Rightarrow>
             valueOf JArr (arrayFrom shortLength (\<lambda>d. valueOf jsInt (readInt16 d)) ds1))
      else if valueType = 0x0C then
        (case readUInt16 ds of
           Inl error \<Rightarrow> Inl error
         | Inr (intLength, ds1) \<Rightarrow>
             valueOf JArr (arrayFrom intLength (\<lambda>d. valueOf jsInt (readInt32 d)) ds1))
      else if valueType = 0x0D then
        (case readUInt16 ds of
           Inl error \<Rightarrow> Inl error
         | Inr (longLength, ds1) \<Rightarrow>
             valueOf JArr (arrayFrom longLength (\<lambda>d. valueOf JNum (readInt64 d)) ds1))
      else if valueType = 0x0E then
        (case readUInt16 ds of
           Inl error \<Rightarrow> Inl error
         | Inr (floatLength, ds1) \<Rightarrow>
             valueOf JArr (arrayFrom floatLength (\<lambda>d. valueOf JNum (readFloat32 d)) ds1))
      else if valueType = 0x0F then
        (case readUInt16 ds of
           Inl error \<Rightarrow> Inl error
         | Inr (doubleLength, ds1) \<Rightarrow>
             valueOf JArr (arrayFrom doubleLength (\<lambda>d. valueOf JNum (readFloat64 d)) ds1))
      else if valueType = 0x10 then
        (case readUInt16 ds of
           Inl error \<Rightarrow> Inl error
         | Inr (stringLength, ds1) \<Rightarrow>
             valueOf JArr
               (arrayFrom stringLength
                  (\<lambda>d. case readUInt16 d of
                          Inl error \<Rightarrow> Inl error
                        | Inr (len, d1) \<Rightarrow>
                            (case readUtf8String rt len d1 of (s, d2) \<Rightarrow> Inr (JStr s, d2)))
                  ds1))
      else Inl (Unsupported valueType))"

text \<open>\<open>decodeSfsObject\<close>, \<open>decodeSfsArray\<close> and \<open>decodeValue\<close>, with the two \<open>for\<close> loops as
  \<open>objectElements\<close> and \<open>arrayElements\<close> over the number of elements still to read. The first
  argument after the environment is the number of nested calls the call stack still admits:
  a call beyond it throws the engine's \<open>RangeError\<close>. A frame nests one call deeper for each
  \<open>SFS_ARRAY\<close> or \<open>SFS_OBJECT\<close> element.\<close>

function (sequential) decodeSfsObject :: "node \<Rightarrow> nat \<Rightarrow> data_stream \<Rightarrow> js_error + (jsval \<times> data_stream)"
  and objectElements :: "node \<Rightarrow> nat \<Rightarrow> nat \<Rightarrow> (string \<times> jsval) list \<Rightarrow> data_stream
                           \<Rightarrow> js_error + (jsval \<times> data_stream)"
  and decodeSfsArray :: "node \<Rightarrow> nat \<Rightarrow> data_stream \<Rightarrow> js_error + (jsval \<times> data_stream)"
  and arrayElements :: "node \<Rightarrow> nat \<Rightarrow> nat \<Rightarrow> jsval list \<Rightarrow> data_stream
                          \<Rightarrow> js_error + (jsval \<times> data_stream)"
  and decodeValue :: "node \<Rightarrow> nat \<Rightarrow> data_stream \<Rightarrow> nat \<Rightarrow> js_error + (jsval \<times> data_stream)"
where
  "decodeSfsObject rt 0 ds = Inl StackOverflow"
| "decodeSfsObject rt (Suc stack) ds =
     (case readUInt16 ds of
        Inl error \<Rightarrow> Inl error
      | Inr (numElements, ds1) \<Rightarrow> objectElements rt stack numElements [] ds1)"
| "objectElements rt stack 0 result ds = Inr (JObj result, ds)"
| "objectElements rt stack (Suc n) result ds =
     (case readUInt16 ds of
        Inl error \<Rightarrow> Inl error
      | Inr (keyLength, ds1) \<Rightarrow>
          (case readUtf8String rt keyLength ds1 of
             (key, ds2) \<Rightarrow>
               (case readUInt8 ds2 of
                  Inl error \<Rightarrow> Inl error
                | Inr (valueType, ds3) \<Rightarrow>
                    (case decodeValue rt stack ds3 valueType of
                       Inl error \<Rightarrow> Inl error
                     | Inr (v, ds4) \<Rightarrow> objectElements rt stack n (setProperty result key v) ds4))))"
| "decodeSfsArray rt 0 ds = Inl StackOverflow"
| "decodeSfsArray rt (Suc stack) ds =
     (case readUInt16 ds of
        Inl error \<Rightarrow> Inl error
      | Inr (numElements, ds1) \<Rightarrow> arrayElements rt stack numElements [] ds1)"
| "arrayElements rt stack 0 result ds = Inr (JArr result, ds)"
| "arrayElements rt stack (Suc n) result ds =
     (case readUInt8 ds of
        Inl error \<Rightarrow> Inl error
      | Inr (valueType, ds1) \<Rightarrow>
          (case decodeValue rt stack ds1 valueType of
             Inl error \<Rightarrow> Inl error
           | Inr (v, ds2) \<Rightarrow> arrayElements rt stack n (result @ [v]) ds2))"
| "decodeValue rt 0 ds valueType = Inl StackOverflow"
| "decodeValue rt (Suc stack) ds valueType =
     (if valueType = 0x11 then decodeSfsArray rt stack ds
      else if valueType = 0x12 then decodeSfsObject rt stack ds
      else decodeLeaf rt ds valueType)"
  by pat_completeness auto

termination
  by (relation "measures
        [\<lambda>x. case x of
                Inl (Inl (rt, stack, ds)) \<Rightarrow> stack
              | Inl (Inr (rt, stack, n, result, ds)) \<Rightarrow> stack
              | Inr (Inl (rt, stack, ds)) \<Rightarrow> stack
              | Inr (Inr (Inl (rt, stack, n, result, ds))) \<Rightarrow> stack
              | Inr (Inr (Inr (rt, stack, ds, valueType))) \<Rightarrow> stack,
         \<lambda>x. case x of
                Inl (Inr (rt, stack, n, result, ds)) \<Rightarrow> Suc n
              | Inr (Inr (Inl (rt, stack, n, result, ds))) \<Rightarrow> Suc n
              | _ \<Rightarrow> 0]")
     auto

text \<open>The value a decoding function returns, without the stream it leaves.\<close>

definition returned :: "js_error + ('a \<times> data_stream) \<Rightarrow> js_error + 'a" where
  "returned r = (case r of Inl error \<Rightarrow> Inl error | Inr (v, ds) \<Rightarrow> Inr v)"

text \<open>\<open>decodeMessage\<close> of decoder.js. The header byte, the length and the root tag are read
  outside a \<open>try\<close>; the inflation and the decoding of the body each have a handler that
  returns \<open>null\<close>. \<open>stack\<close> is the number of nested calls the call stack admits below this
  one.\<close>

definition sfs_decodeMessage :: "node \<Rightarrow> nat \<Rightarrow> byte list \<Rightarrow> js_error + jsval" where
  "sfs_decodeMessage rt stack binaryData =
     bindE (readUInt8 (DataStream binaryData)) (\<lambda>(header, ds).
       if header AND 0x80 \<noteq> 0x80 then Inr JNull
       else
         bindE (readUInt16 ds) (\<lambda>(messageLength, ds1).
           let bodyData = drop (position ds1) binaryData;
               decompressedData =
                 (if 1 < length bodyData \<and> bodyData ! 0 = 0x78 \<and> bodyData ! 1 = 0x9c
                  then (case inflateSync rt bodyData of Inl e \<Rightarrow> None | Inr d \<Rightarrow> Some d)
                  else Some bodyData)
           in case decompressedData of
                None \<Rightarrow> Inr JNull
              | Some d \<Rightarrow>
                  bindE (readUInt8 (DataStream d)) (\<lambda>(dataType, bodyDs).
                    tryCatch
                      (if dataType = 0x12 then returned (decodeSfsObject rt stack bodyDs)
                       else if dataType = 0x11 then returned (decodeSfsArray rt stack bodyDs)
                       else Inr JNull)
                      (\<lambda>e. Inr JNull))))"

section \<open>The Format-B decoder (decoder-msgpack.js)\<close>

text \<open>\<open>{ p: { c: command, p: params } }\<close>.\<close>

definition envelope :: "jsval \<Rightarrow> jsval \<Rightarrow> jsval" where
  "envelope command params = JObj [(''p'', JObj [(''c'', command), (''p'', params)])]"

text \<open>\<open>{ ...obj, name: v }\<close>. It is only evaluated for an \<open>obj\<close> that owns a property, an object.\<close>

definition spreadWith :: "jsval \<Rightarrow> string \<Rightarrow> jsval \<Rightarrow> jsval" where
  "spreadWith obj name v =
     (case obj of JObj ps \<Rightarrow> JObj (setProperty ps name v) | _ \<Rightarrow> JObj [(name, v)])"

text \<open>\<open>normalizeDirectMessage\<close>. The first property read throws on \<open>null\<close> (an \<open>undefined\<close>
  never reaches it); the handler returns \<open>null\<close>.\<close>

definition normalizeDirectMessage :: "jsval \<Rightarrow> js_error + jsval" where
  "normalizeDirectMessage obj =
     tryCatch
       (if nullish obj then Inl TypeError
        else if getProperty obj ''betsCount'' \<noteq> JUndefined \<or> getProperty obj ''bets'' \<noteq> JUndefined
        then Inr (envelope (JStr ''updateCurrentBets'') obj)
        else if getProperty obj ''onlinePlayers'' \<noteq> JUndefined
        then Inr (envelope (JStr ''onlinePlayers'') obj)
        else if getProperty obj ''newStateId'' \<noteq> JUndefined \<or> getProperty obj ''stateId'' \<noteq> JUndefined
        then Inr (envelope (JStr ''changeState'')
                   (if getProperty obj ''stateId'' \<noteq> JUndefined \<and> getProperty obj ''newStateId'' = JUndefined
                    then spreadWith obj ''newStateId'' (getProperty obj ''stateId'') else obj))
        else if getProperty obj ''cashouts'' \<noteq> JUndefined \<or> getProperty obj ''cashOuts'' \<noteq> JUndefined
        then Inr (envelope (JStr ''updateCurrentCashOuts'')
                   (if getProperty obj ''cashOuts'' \<noteq> JUndefined \<and> getProperty obj ''cashouts'' = JUndefined
                    then spreadWith obj ''cashouts'' (getProperty obj ''cashOuts'') else obj))
        else if getProperty obj ''crashX'' \<noteq> JUndefined \<or> getProperty obj ''x'' \<noteq> JUndefined
        then Inr (envelope (JStr ''x'') obj)
        else if getProperty obj ''roundId'' \<noteq> JUndefined \<and> getProperty obj ''maxMultiplier'' \<noteq> JUndefined
        then Inr (envelope (JStr ''roundChartInfo'') obj)
        else Inr (envelope (JStr ''unknown'') obj))
       (\<lambda>error. Inr JNull)"

text \<open>\<open>normalizeArrayMessage\<close>, for the elements of an array. \<open>arr[i] || {}\<close>.\<close>

definition orEmptyObject :: "jsval \<Rightarrow> jsval" where
  "orEmptyObject v = (if toBoolean v then v else JObj [])"

definition normalizeArrayMessage :: "jsval list \<Rightarrow> js_error + jsval" where
  "normalizeArrayMessage arr =
     tryCatch
       (if 3 \<le> length arr \<and> typeof (arr ! 1) = ''string''
        then Inr (envelope (arr ! 1) (orEmptyObject (arr ! 2)))
        else if 2 \<le> length arr \<and> typeof (arr ! 0) = ''string''
        then Inr (envelope (arr ! 0) (orEmptyObject (arr ! 1)))
        else if length arr = 1 \<and> typeof (arr ! 0) = ''object''
        then normalizeDirectMessage (arr ! 0)
        else Inr JNull)
       (\<lambda>error. Inr JNull)"

text \<open>\<open>normalizeMessagePackStructure\<close>.\<close>

definition normalizeMessagePackStructure :: "jsval \<Rightarrow> js_error + jsval" where
  "normalizeMessagePackStructure decoded =
     (if \<not> toBoolean decoded then Inr JNull
      else
        tryCatch
          (if toBoolean (getProperty decoded ''p'') \<and> typeof (getProperty decoded ''p'') = ''object''
           then Inr decoded
           else
             (case decoded of
                JArr arr \<Rightarrow>
                  if 2 \<le> length arr then normalizeArrayMessage arr
                  else normalizeDirectMessage decoded
              | _ \<Rightarrow>
                  if typeof decoded = ''object'' \<and> toBoolean (getProperty decoded ''c'') \<and>
                     toBoolean (getProperty decoded ''p'')
                  then Inr (JObj [(''p'', decoded)])
                  else if typeof decoded = ''object'' then normalizeDirectMessage decoded
                  else if typeof decoded = ''string'' \<or> typeof decoded = ''number'' then Inr JNull
                  else Inr (envelope (JStr ''unknown'') decoded)))
          (\<lambda>error. Inr JNull))"

text \<open>The logging block of \<open>decodeMessagePackMessage\<close>: it reads \<open>params.newStateId\<close> for the
  command \<open>changeState\<close> and \<open>params.crashX\<close> for the command \<open>x\<close>, and throws when \<open>params\<close>
  is \<open>null\<close> or \<open>undefined\<close>. What it logs is not part of the result.\<close>

definition logRoundEvents :: "jsval \<Rightarrow> js_error + unit" where
  "logRoundEvents normalized =
     (if toBoolean normalized \<and> toBoolean (getProperty normalized ''p'') \<and>
         toBoolean (getProperty (getProperty normalized ''p'') ''c'')
      then
        let cmd = getProperty (getProperty normalized ''p'') ''c'';
            params = getProperty (getProperty normalized ''p'') ''p''
        in if cmd = JStr ''changeState'' then (if nullish params then Inl TypeError else Inr ())
           else if cmd = JStr ''x'' then (if nullish params then Inl TypeError else Inr ())
           else Inr ()
      else Inr ())"

text \<open>\<open>decodeMessagePackMessage\<close>, exported as \<open>decodeMessage\<close>.\<close>

definition decodeMessagePackMessage :: "node \<Rightarrow> byte list \<Rightarrow> js_error + jsval" where
  "decodeMessagePackMessage rt binaryData =
     tryCatch
       (if length binaryData = 0 then Inr JNull
        else if \<not> isMessagePackMessage binaryData then Inr JNull
        else
          bindE (msgpack_decode rt binaryData) (\<lambda>decoded.
            if toBoolean decoded then
              bindE (normalizeMessagePackStructure decoded) (\<lambda>normalized.
                bindE (logRoundEvents normalized) (\<lambda>_. Inr normalized))
            else Inr JNull))
       (\<lambda>error. Inr JNull)"

section \<open>The unified decoder (decoder-unified.js)\<close>

text \<open>\<open>decodeMessage\<close>. After both decoders returned \<open>null\<close> the source logs an analysis of the
  message and returns \<open>null\<close>; the analysis only feeds the log.\<close>

definition decodeMessage :: "node \<Rightarrow> nat \<Rightarrow> byte list \<Rightarrow> decoder_type \<Rightarrow> js_error + jsval" where
  "decodeMessage rt stack binaryData decoderType =
     tryCatch
       (if length binaryData = 0 then Inr JNull
        else
          let actualDecoderType =
                (if decoderType = AUTO then detectDecoderType binaryData else decoderType)
          in case actualDecoderType of
               MSGPACK \<Rightarrow>
                 bindE (decodeMessagePackMessage rt binaryData) (\<lambda>result.
                   if toBoolean result then Inr result
                   else
                     bindE (sfs_decodeMessage rt stack binaryData) (\<lambda>result.
                       if toBoolean result then Inr result else Inr JNull))
             | _ \<Rightarrow>
                 bindE (sfs_decodeMessage rt stack binaryData) (\<lambda>result.
                   if toBoolean result then Inr result
                   else
                     bindE (decodeMessagePackMessage rt binaryData) (\<lambda>result.
                       if toBoolean result then Inr result else Inr JNull)))
       (\<lambda>error. Inr JNull)"

text \<open>A decoded envelope: an object or an array.\<close>

definition isEnvelope :: "jsval \<Rightarrow> bool" where
  "isEnvelope v = (case v of JObj ps \<Rightarrow> True | JArr vs \<Rightarrow> True | _ \<Rightarrow> False)"

text \<open>The bytes of a stream still to read.\<close>

definition remaining :: "data_stream \<Rightarrow> nat" where
  "remaining ds = length (buffer ds) - (byteOffset ds + position ds)"

text \<open>What a decoding step does to the stream it is given: it throws something other than the
  stack's \<open>RangeError\<close>, or it returns the same buffer with a position not before the one
  it started from.\<close>

definition advances :: "data_stream \<Rightarrow> js_error + ('a \<times> data_stream) \<Rightarrow> bool" where
  "advances ds r =
     (case r of
        Inl error \<Rightarrow> error \<noteq> StackOverflow
      | Inr (v, ds') \<Rightarrow>
          buffer ds' = buffer ds \<and> byteOffset ds' = byteOffset ds \<and> position ds \<le> position ds')"

text \<open>An environment for the examples: ASCII text, and libraries that refuse their input. A
  frame that holds the object \<open>{ c: 5 }\<close>.\<close>

definition node_example :: node where
  "node_example =
     \<lparr>toString_utf8 = (\<lambda>bs. Inr (map (\<lambda>b. char_of (unat b)) bs)),
      inflateSync = (\<lambda>bs. Inl LibraryError),
      msgpack_decode = (\<lambda>bs. Inl LibraryError)\<rparr>"

definition frame_example :: "byte list" where
  "frame_example = [0x80, 0x00, 0x08, 0x12, 0x00, 0x01, 0x00, 0x01, 0x63, 0x02, 0x05]"

section \<open>Auto-dispatch of a canonical Format-A frame\<close>

text \<open>Claim C8. Every buffer whose first byte is 0x80 and whose second byte is 0x00 or 0x01
  is classified as Format A (\<open>SFS\<close>) by \<open>detectDecoderType\<close>, whatever follows; in particular
  it is never classified as Format B (\<open>MSGPACK\<close>).\<close>

theorem detectDecoderType_canonical_sfs:
  assumes "b1 = 0x00 \<or> b1 = 0x01"
  shows "detectDecoderType (0x80 # b1 # rest) = SFS"
  using assms by (auto simp: detectDecoderType_def isMessagePackMessage_def)

theorem detectDecoderType_canonical_sfs_witness:
  "((0x01::byte) = 0x00 \<or> (0x01::byte) = 0x01) \<and>
   detectDecoderType [0x80, 0x01, 0x2a, 0x78, 0x9c] = SFS \<and>
   detectDecoderType [0x80, 0x01, 0x2a, 0x78, 0x9c] \<noteq> MSGPACK"
  using detectDecoderType_canonical_sfs [of "0x01" "[0x2a, 0x78, 0x9c]"] by simp

section \<open>Basic facts\<close>

subsection \<open>Constants of the persist path\<close>

lemma MAX_MULTIPLIER_VALUE_eq: "MAX_MULTIPLIER_VALUE = Fin 1000000000000000000"
  by code_simp

lemma Math_pow10_2: "Math_pow10 2 = Fin 100"
  by code_simp

lemma round2_max: "js_div (Math_round (js_mul (Fin 1000000000000000000) (Fin 100))) (Fin 100) = Fin 1000000000000000000"
  by code_simp

lemma to_decimal_max_overflow: "to_decimal 20 2 (Fin 1000000000000000000) = Inl NumericOverflow"
  by code_simp

lemma to_decimal_error: "to_decimal p s v = Inl e \<Longrightarrow> e = NumericOverflow"
  by (auto simp: to_decimal_def Let_def split: jsnum.splits if_splits)

lemma to_int4_error: "to_int4 n = Inl e \<Longrightarrow> e = NumericOverflow"
  by (auto simp: to_int4_def split: if_splits)

subsection \<open>The pattern detection service leaves the round tables alone\<close>

lemma addSignalResult_frame:
  "addSignalResult sid n m win rid w = Inr w' \<Longrightarrow>
     game_rounds w' = game_rounds w \<and> savedRounds w' = savedRounds w \<and>
     roundData w' = roundData w \<and> backupLog w' = backupLog w \<and>
     pendingSignals w' = pendingSignals w \<and> signals w' = signals w"
  by (auto simp: addSignalResult_def split: sum.splits)

lemma updateFirstAttempt_frame:
  "updateFirstAttempt sid m rid w = Inr w' \<Longrightarrow>
     game_rounds w' = game_rounds w \<and> savedRounds w' = savedRounds w \<and>
     roundData w' = roundData w \<and> backupLog w' = backupLog w \<and>
     pendingSignals w' = pendingSignals w"
  by (auto simp: updateFirstAttempt_def addSignalResult_def Let_def split: sum.splits)

lemma updateSecondAttempt_frame:
  "updateSecondAttempt sid m rid w = Inr w' \<Longrightarrow>
     game_rounds w' = game_rounds w \<and> savedRounds w' = savedRounds w \<and>
     roundData w' = roundData w \<and> backupLog w' = backupLog w \<and>
     pendingSignals w' = pendingSignals w"
  by (auto simp: updateSecondAttempt_def addSignalResult_def Let_def split: sum.splits)

lemma verifySignal_frame:
  "game_rounds (verifySignal sid b rid m w) = game_rounds w \<and>
   savedRounds (verifySignal sid b rid m w) = savedRounds w \<and>
   roundData (verifySignal sid b rid m w) = roundData w \<and>
   backupLog (verifySignal sid b rid m w) = backupLog w"
  by (auto simp: verifySignal_def clearPending_def Let_def split: option.splits sum.splits
           dest!: updateFirstAttempt_frame updateSecondAttempt_frame)

lemma emitSignal_frame:
  "game_rounds (emitSignal b p w) = game_rounds w \<and>
   savedRounds (emitSignal b p w) = savedRounds w \<and>
   roundData (emitSignal b p w) = roundData w \<and>
   backupLog (emitSignal b p w) = backupLog w"
  by (auto simp: emitSignal_def createSignal_def Let_def)

lemma processNewResult_frame:
  "game_rounds (processNewResult b rid m w) = game_rounds w \<and>
   savedRounds (processNewResult b rid m w) = savedRounds w \<and>
   roundData (processNewResult b rid m w) = roundData w \<and>
   backupLog (processNewResult b rid m w) = backupLog w"
  by (auto simp: processNewResult_def resolvePending_def markProcessed_def Let_def
                 verifySignal_frame emitSignal_frame
           split: option.splits)

lemma afterSave_frame:
  "game_rounds (afterSave b rid v r w) = game_rounds w \<and>
   savedRounds (afterSave b rid v r w) = insert (b, rid) (savedRounds w) \<and>
   roundData (afterSave b rid v r w) = roundData w \<and>
   backupLog (afterSave b rid v r w) = backupLog w"
  by (simp add: afterSave_def Let_def processNewResult_frame)

subsection \<open>Validation of the crash multiplier\<close>

lemma validateCrashX_over_max:
  "js_gt crashX MAX_MULTIPLIER_VALUE \<Longrightarrow> validateCrashX crashX rd = Some (Fin 1000000000000000000)"
  by (cases crashX)
     (auto simp add: validateCrashX_def MAX_MULTIPLIER_VALUE_eq js_gt_def js_le_def js_or_def
                     truthy_def isFinite_def isNaN_def round2_max Let_def
           simp del: js_mul.simps js_div.simps Math_round.simps)

lemma validateCrashX_rejects:
  assumes "crashX = NaN \<or> crashX = NInf \<or> (\<exists>x. crashX = Fin x \<and> x \<le> 0)"
    and "\<not> js_gt (maxMultiplier rd) (Fin 0)"
  shows "validateCrashX crashX rd = None"
  using assms
  by (cases "maxMultiplier rd")
     (auto simp: validateCrashX_def js_gt_def js_le_def js_or_def truthy_def Let_def)

lemma safeDecimalValue_max:
  "safeDecimalValue (Fin 1000000000000000000) 2 MAX_MULTIPLIER_VALUE = Fin 1000000000000000000"
  by (simp add: safeDecimalValue_def MAX_MULTIPLIER_VALUE_eq isFinite_def isNaN_def js_gt_def
                Math_pow10_2 round2_max Let_def
           del: js_mul.simps js_div.simps Math_round.simps)

lemma Math_min_max: "Math_min (Fin 1000000000000000000) MAX_MULTIPLIER_VALUE = Fin 1000000000000000000"
  by (simp add: Math_min_def MAX_MULTIPLIER_VALUE_eq)

subsection \<open>Inserting a round\<close>

lemma roundColumns_error:
  "roundColumns now b rid bc tba op mm tc cp lp = Inl e \<Longrightarrow> e = NumericOverflow"
  by (auto simp: roundColumns_def split: sum.splits dest: to_decimal_error to_int4_error)

lemma roundColumns_multiplier_overflow:
  "to_decimal 20 2 mm = Inl e \<Longrightarrow> \<exists>e'. roundColumns now b rid bc tba op mm tc cp lp = Inl e'"
  by (auto simp: roundColumns_def split: sum.splits)

lemma findSimilarRound_max:
  assumes "\<forall>r \<in> set rows. max_multiplier r \<le> 10 ^ 18 - 1 / 100"
  shows "findSimilarRound now rows b (Fin 1000000000000000000) = None"
proof -
  have "filter (\<lambda>r. bookmaker_id r = b \<and> \<bar>max_multiplier r - 1000000000000000000\<bar> < 1 / 100 \<and>
                      timestamp r > now - 5 * 60 * 1000) rows = []"
    using assms by (auto simp: filter_empty_conv)
  then show ?thesis by (simp add: findSimilarRound_def)
qed

lemma addRound_multiplier_overflow:
  assumes "findByRoundId rows b rid = None"
    and "to_decimal 20 2 mm = Inl e"
    and "findSimilarRound now rows b mm = None"
  shows "addRound now rows b rid bc tba op mm tc cp lp = Inl NumericOverflow"
proof -
  obtain e' where "roundColumns now b rid bc tba op mm tc cp lp = Inl e'"
    using roundColumns_multiplier_overflow [OF assms(2)] by blast
  moreover from this have "e' = NumericOverflow" by (rule roundColumns_error)
  ultimately show ?thesis
    using assms by (simp add: addRound_def insertRound_def Let_def)
qed

lemma persistRound_over_max:
  assumes "findByRoundId (game_rounds w) b rid = None"
    and "\<forall>r \<in> set (game_rounds w). max_multiplier r \<le> 10 ^ 18 - 1 / 100"
  shows "persistRound now b rid (Fin 1000000000000000000) crashX rd w = saveRoundToBackup b rd crashX w"
proof -
  have sim: "findSimilarRound now (game_rounds w) b (Fin 1000000000000000000) = None"
    using assms(2) by (rule findSimilarRound_max)
  have "addRound now (game_rounds w) b rid bc tba op (Fin 1000000000000000000) tc cp lp = Inl NumericOverflow"
    for bc tba op tc cp lp
    using assms(1) to_decimal_max_overflow sim by (rule addRound_multiplier_overflow)
  then show ?thesis
    by (simp add: persistRound_def safeDecimalValue_max Math_min_max split: prod.splits)
qed

lemma saveRoundData_over_max:
  assumes "js_gt crashX MAX_MULTIPLIER_VALUE"
    and "\<forall>r \<in> set (game_rounds w). max_multiplier r \<le> 10 ^ 18 - 1 / 100"
  shows "game_rounds (saveRoundData now b crashX w) = game_rounds w"
proof (cases "roundData w b")
  case None
  then show ?thesis by (simp add: saveRoundData_def)
next
  case (Some rd0)
  have v: "validateCrashX crashX rd0 = Some (Fin 1000000000000000000)"
    using assms(1) by (rule validateCrashX_over_max)
  have sim: "similarToMerge now (game_rounds w) b rid (Fin 1000000000000000000) = None" for rid
    using findSimilarRound_max [OF assms(2)] by (simp add: similarToMerge_def)
  show ?thesis
    using Some v sim assms(2)
    by (auto simp: saveRoundData_def Let_def persistRound_over_max saveRoundToBackup_def
             split: option.splits)
qed

subsection \<open>The paths of \<open>saveRoundData\<close>\<close>

lemma saveRoundData_rejects:
  assumes "crashX = NaN \<or> crashX = NInf \<or> (\<exists>x. crashX = Fin x \<and> x \<le> 0)"
    and "\<forall>rd. roundData w b = Some rd \<longrightarrow> \<not> js_gt (maxMultiplier rd) (Fin 0)"
  shows "saveRoundData now b crashX w = w"
  using assms by (auto simp: saveRoundData_def validateCrashX_rejects split: option.splits)

lemma ensureRoundId_Some: "roundId rd = Some rid \<Longrightarrow> rid \<noteq> [] \<Longrightarrow> ensureRoundId now b rd = rid"
  by (simp add: ensureRoundId_def)


lemma saveRoundData_existing_marks:
  assumes "roundData w b = Some rd" and "roundId rd = Some rid" and "rid \<noteq> []"
    and "findByRoundId (game_rounds w) b rid = Some r"
    and "validateCrashX crashX rd = Some v"
  shows "savedRounds (saveRoundData now b crashX w) = insert (b, rid) (savedRounds w)"
  using assms by (auto simp: saveRoundData_def Let_def ensureRoundId_Some split: option.splits)

lemma roundColumns_Inr:
  "roundColumns now b rid bc tba op mm tc cp lp = Inr row \<Longrightarrow>
     bookmaker_id row = b \<and> round_id row = rid \<and> timestamp row = now \<and>
     to_decimal 15 2 tba = Inr (total_bet_amount row) \<and>
     to_decimal 20 2 mm = Inr (max_multiplier row) \<and>
     to_decimal 15 2 tc = Inr (total_cashout row) \<and>
     to_decimal 15 2 cp = Inr (casino_profit row) \<and>
     to_decimal 5 2 lp = Inr (loss_percentage row)"
  by (auto simp: roundColumns_def split: sum.splits)

lemma addRound_similar:
  "addRound now rows b rid bc tba op mm tc cp lp =
     (case findByRoundId rows b rid of
        Some existing \<Rightarrow> Inr (existing, rows)
      | None \<Rightarrow>
          (case similarToMerge now rows b rid mm of
             Some similarRound \<Rightarrow> Inr (similarRound, rows)
           | None \<Rightarrow>
               (case roundColumns now b rid bc tba op mm tc cp lp of
                  Inl e \<Rightarrow> Inl NumericOverflow
                | Inr row \<Rightarrow> Inr (row, rows @ [row]))))"
  by (auto simp: addRound_def insertRound_def similarToMerge_def Let_def
           split: option.splits sum.splits db_error.splits dest: roundColumns_error)

lemma safeAmounts_roundId [simp]: "safeAmounts (rd\<lparr>roundId := x\<rparr>) = safeAmounts rd"
  by (simp add: safeAmounts_def)

lemma safeAmounts_maxMultiplier [simp]: "safeAmounts (rd\<lparr>maxMultiplier := x\<rparr>) = safeAmounts rd"
  by (simp add: safeAmounts_def)

lemma roundRow_roundId [simp]: "roundRow now b rid v (rd\<lparr>roundId := x\<rparr>) = roundRow now b rid v rd"
  by (simp add: roundRow_def)

lemma roundRow_maxMultiplier [simp]:
  "roundRow now b rid v (rd\<lparr>maxMultiplier := x\<rparr>) = roundRow now b rid v rd"
  by (simp add: roundRow_def)

lemma persistRound_inserts:
  assumes "findByRoundId (game_rounds w) b rid = None"
    and "similarToMerge now (game_rounds w) b rid (safeDecimalValue v 2 MAX_MULTIPLIER_VALUE) = None"
    and "roundRow now b rid v rd = Inr row"
  shows "game_rounds (persistRound now b rid v crashX rd w) = game_rounds w @ [row] \<and>
         savedRounds (persistRound now b rid v crashX rd w) = insert (b, rid) (savedRounds w)"
proof -
  obtain sb sc sp sl where sa: "safeAmounts rd = (sb, sc, sp, sl)"
    by (cases "safeAmounts rd") auto
  with assms(3) have cols: "roundColumns now b rid (betsCount rd) sb (onlinePlayers rd)
      (safeDecimalValue v 2 MAX_MULTIPLIER_VALUE) sc sp sl = Inr row"
    by (simp add: roundRow_def)
  then have rid: "round_id row = rid" by (simp add: roundColumns_Inr)
  have "addRound now (game_rounds w) b rid (betsCount rd) sb (onlinePlayers rd)
      (safeDecimalValue v 2 MAX_MULTIPLIER_VALUE) sc sp sl = Inr (row, game_rounds w @ [row])"
    using assms(1,2) cols by (simp add: addRound_similar)
  then show ?thesis
    using sa rid by (simp add: persistRound_def Let_def afterSave_frame)
qed

lemma saveRoundData_inserts:
  assumes "roundData w b = Some rd"
    and "validateCrashX crashX rd = Some v"
    and "ensureRoundId now b rd = rid"
    and "(b, rid) \<notin> savedRounds w"
    and "findByRoundId (game_rounds w) b rid = None"
    and "similarToMerge now (game_rounds w) b rid v = None"
    and "similarToMerge now (game_rounds w) b rid (safeDecimalValue v 2 MAX_MULTIPLIER_VALUE) = None"
    and "roundRow now b rid v rd = Inr row"
  shows "game_rounds (saveRoundData now b crashX w) = game_rounds w @ [row] \<and>
         savedRounds (saveRoundData now b crashX w) = insert (b, rid) (savedRounds w)"
  using assms by (simp add: saveRoundData_def Let_def persistRound_inserts)

subsection \<open>Finalize calls\<close>

lemma validateCrashX_roundId [simp]:
  "validateCrashX crashX (rd\<lparr>roundId := x\<rparr>) = validateCrashX crashX rd"
  by (simp add: validateCrashX_def)

lemma findByRoundId_None_iff: "findByRoundId rows b rid = None \<longleftrightarrow> rowsOfKey b rid rows = []"
  by (auto simp: findByRoundId_def rowsOfKey_def find_None_iff filter_empty_conv)

lemma similarToMerge_real: "\<not> isTemporaryId rid \<Longrightarrow> similarToMerge now rows b rid m = None"
  by (simp add: similarToMerge_def)

lemma finalizeCall_inserts:
  assumes "rid \<noteq> []"
    and "cleared \<or> (b, rid) \<notin> savedRounds w"
    and "findByRoundId (game_rounds w) b rid = None"
    and "similarToMerge now (game_rounds w) b rid v = None"
    and "similarToMerge now (game_rounds w) b rid (safeDecimalValue v 2 MAX_MULTIPLIER_VALUE) = None"
    and "validateCrashX crashX agg = Some v"
    and "roundRow now b rid v agg = Inr row"
  shows "game_rounds (finalizeCall b rid (now, crashX, agg, cleared) w) = game_rounds w @ [row] \<and>
         savedRounds (finalizeCall b rid (now, crashX, agg, cleared) w) =
           insert (b, rid) (if cleared then {} else savedRounds w)"
proof -
  let ?w = "w\<lparr>roundData := (roundData w)(b \<mapsto> agg\<lparr>roundId := Some rid\<rparr>),
              savedRounds := (if cleared then {} else savedRounds w)\<rparr>"
  have "game_rounds (saveRoundData now b crashX ?w) = game_rounds ?w @ [row] \<and>
        savedRounds (saveRoundData now b crashX ?w) = insert (b, rid) (savedRounds ?w)"
  proof (rule saveRoundData_inserts)
    show "roundData ?w b = Some (agg\<lparr>roundId := Some rid\<rparr>)" by simp
    show "validateCrashX crashX (agg\<lparr>roundId := Some rid\<rparr>) = Some v" using assms(6) by simp
    show "ensureRoundId now b (agg\<lparr>roundId := Some rid\<rparr>) = rid"
      using assms(1) by (simp add: ensureRoundId_def)
    show "(b, rid) \<notin> savedRounds ?w" using assms(2) by auto
    show "findByRoundId (game_rounds ?w) b rid = None" using assms(3) by simp
    show "similarToMerge now (game_rounds ?w) b rid v = None" using assms(4) by simp
    show "similarToMerge now (game_rounds ?w) b rid (safeDecimalValue v 2 MAX_MULTIPLIER_VALUE) = None"
      using assms(5) by simp
    show "roundRow now b rid v (agg\<lparr>roundId := Some rid\<rparr>) = Inr row" using assms(7) by simp
  qed
  then show ?thesis by (simp add: finalizeCall_def)
qed





subsection \<open>\<open>safeDecimalValue\<close>\<close>

lemma safeDecimalValue_nonfinite: "\<not> isFinite v \<Longrightarrow> safeDecimalValue v d mx = Fin 0"
  by (simp add: safeDecimalValue_def)

lemma safeDecimalValue_clamps:
  assumes "isFinite v" and "isFinite mx" and "js_gt v mx"
  shows "safeDecimalValue v d mx = safeDecimalValue mx d mx"
proof -
  obtain y where "mx = Fin y" using assms(2) by (cases mx) (auto simp: isFinite_def)
  then have "\<not> js_gt mx mx" by (simp add: js_gt_def)
  then show ?thesis
    using assms by (auto simp: safeDecimalValue_def isFinite_def isNaN_def Let_def)
qed

lemma safeDecimalValue_clamps_default:
  assumes "isFinite v" and "js_gt v MAX_MULTIPLIER_VALUE"
  shows "safeDecimalValue v 2 MAX_MULTIPLIER_VALUE = MAX_MULTIPLIER_VALUE"
proof -
  have "isFinite MAX_MULTIPLIER_VALUE" by (simp add: MAX_MULTIPLIER_VALUE_eq isFinite_def)
  with assms have "safeDecimalValue v 2 MAX_MULTIPLIER_VALUE =
                   safeDecimalValue MAX_MULTIPLIER_VALUE 2 MAX_MULTIPLIER_VALUE"
    by (intro safeDecimalValue_clamps)
  then show ?thesis
    by (simp only: MAX_MULTIPLIER_VALUE_eq safeDecimalValue_max [simplified MAX_MULTIPLIER_VALUE_eq])
qed

lemma fl_zero: "fl 0 = Fin 0"
  by (simp add: fl_def)

lemma js_div_int_100: "js_div (Fin (of_int n)) (Fin 100) = fl (of_int n / 100)"
  by simp

lemma safeDecimalValue_rounded:
  assumes "isFinite (safeDecimalValue v 2 mx)"
  shows "\<exists>k::int. safeDecimalValue v 2 mx = fl (of_int k / 100)"
proof (cases "isFinite v")
  case False
  then have "safeDecimalValue v 2 mx = fl (of_int 0 / 100)"
    by (simp add: safeDecimalValue_nonfinite fl_zero)
  then show ?thesis by blast
next
  case True
  define x where "x = js_mul (if js_gt v mx then mx else v) (Fin 100)"
  have eq: "safeDecimalValue v 2 mx = js_div (Math_round x) (Fin 100)"
    using True by (simp add: safeDecimalValue_def x_def Math_pow10_2 isFinite_def isNaN_def Let_def
                        split: jsnum.splits)
  show ?thesis
  proof (cases x)
    case (Fin y)
    then have "safeDecimalValue v 2 mx = fl (of_int \<lfloor>y + 1 / 2\<rfloor> / 100)"
      using eq by simp
    then show ?thesis by blast
  qed (use assms eq in \<open>auto simp: isFinite_def js_inf_def\<close>)
qed

lemma safeDecimalValue_zero: "safeDecimalValue (Fin 0) 2 MAX_MULTIPLIER_VALUE = Fin 0"
  by code_simp

lemma to_decimal_zero: "to_decimal 15 2 (Fin 0) = Inr 0"
  by code_simp

lemma safe_or_zero:
  "\<not> isFinite v \<Longrightarrow> safeDecimalValue (js_or v (Fin 0)) 2 MAX_MULTIPLIER_VALUE = Fin 0"
  by (cases v) (simp_all add: js_or_def truthy_def isFinite_def safeDecimalValue_nonfinite
                              safeDecimalValue_zero)

lemma roundRow_nonfinite_fields:
  assumes "roundRow now b rid v rd = Inr row"
  shows "(\<not> isFinite (totalBetAmount rd) \<longrightarrow> total_bet_amount row = 0) \<and>
         (\<not> isFinite (totalCashout rd) \<longrightarrow> total_cashout row = 0) \<and>
         (\<not> isFinite (js_sub (js_or (totalBetAmount rd) (Fin 0)) (js_or (totalCashout rd) (Fin 0)))
            \<longrightarrow> casino_profit row = 0)"
proof -
  obtain sb sc sp sl where sa: "safeAmounts rd = (sb, sc, sp, sl)"
    by (cases "safeAmounts rd") auto
  with assms have cols: "to_decimal 15 2 sb = Inr (total_bet_amount row) \<and>
      to_decimal 15 2 sc = Inr (total_cashout row) \<and>
      to_decimal 15 2 sp = Inr (casino_profit row)"
    by (auto simp: roundRow_def dest: roundColumns_Inr)
  have sb: "sb = safeDecimalValue (js_or (totalBetAmount rd) (Fin 0)) 2 MAX_MULTIPLIER_VALUE"
    and sc: "sc = safeDecimalValue (js_or (totalCashout rd) (Fin 0)) 2 MAX_MULTIPLIER_VALUE"
    and sp: "sp = safeDecimalValue
                    (js_sub (js_or (totalBetAmount rd) (Fin 0)) (js_or (totalCashout rd) (Fin 0)))
                    2 MAX_MULTIPLIER_VALUE"
    using sa by (simp_all add: safeAmounts_def Let_def)
  show ?thesis
    using cols by (auto simp: sb sc sp safe_or_zero safeDecimalValue_nonfinite to_decimal_zero)
qed

subsection \<open>The similarity check\<close>















subsection \<open>Two finalize calls\<close>





subsection \<open>The signal engine, step by step\<close>

lemma verifySignal_signals_length:
  "length (signals (verifySignal sid b rid m w)) = length (signals w)"
  by (auto simp: verifySignal_def clearPending_def updateFirstAttempt_def updateSecondAttempt_def
                 addSignalResult_def Let_def
           split: option.splits sum.splits)

lemma resolvePending_frame:
  "game_rounds (resolvePending b rid m w) = game_rounds w \<and>
   length (signals (resolvePending b rid m w)) = length (signals w)"
  by (simp add: resolvePending_def verifySignal_frame verifySignal_signals_length
           split: option.splits)

lemma verifySignal_processedResults:
  "verifySignal sid b rid m (w\<lparr>processedResults := x\<rparr>) =
     (verifySignal sid b rid m w)\<lparr>processedResults := x\<rparr>"
  by (auto simp: verifySignal_def clearPending_def updateFirstAttempt_def updateSecondAttempt_def
                 addSignalResult_def getPendingSignals_def Let_def
           split: option.splits sum.splits)

lemma resolvePending_markProcessed:
  "resolvePending b rid m (markProcessed k w) =
     (resolvePending b rid m w)\<lparr>processedResults := processedResults (markProcessed k w)\<rparr>"
  by (simp add: resolvePending_def markProcessed_def Let_def verifySignal_processedResults
           split: option.splits)

lemma detectPattern_spec:
  "3 \<le> length rs \<Longrightarrow> (detectPattern rs \<noteq> None) = spec_trigger rs"
  by (simp add: detectPattern_def spec_trigger_def Let_def)

lemma detectPattern_Some:
  "detectPattern rs = Some p \<Longrightarrow>
     p = [parseFloat_decimal (max_multiplier (rs ! 0)), parseFloat_decimal (max_multiplier (rs ! 1)),
          parseFloat_decimal (max_multiplier (rs ! 2))]"
  by (auto simp: detectPattern_def Let_def split: if_splits)

lemma emitSignal_occupied: "pendingSignals w b \<noteq> None \<Longrightarrow> emitSignal b p w = w"
  by (simp add: emitSignal_def)

lemma emitSignal_free:
  assumes "pendingSignals w b = None"
  shows "signals (emitSignal b p w) =
           signals w @ [\<lparr>signal_id = signals_id_seq w + 1, signal_bookmaker_id = b,
                          pattern_detected = p, status = Pending, gale_used = False,
                          first_attempt_result = None, second_attempt_result = None\<rparr>] \<and>
         pendingSignals (emitSignal b p w) = (pendingSignals w)(b \<mapsto> signals_id_seq w + 1) \<and>
         signals_id_seq (emitSignal b p w) = signals_id_seq w + 1 \<and>
         signal_results (emitSignal b p w) = signal_results w"
  using assms by (simp add: emitSignal_def createSignal_def Let_def)

lemma processNewResult_new:
  assumes "(b, rid, m) \<notin> set (processedResults w)"
  shows "signals (processNewResult b rid m w) =
           (let w2 = resolvePending b rid m w;
                rs = recentUnique w b
            in if 3 \<le> length rs \<and> spec_trigger rs \<and> pendingSignals w2 b = None
               then signals w2 @
                      [\<lparr>signal_id = signals_id_seq w2 + 1, signal_bookmaker_id = b,
                        pattern_detected =
                          [parseFloat_decimal (max_multiplier (rs ! 0)),
                           parseFloat_decimal (max_multiplier (rs ! 1)),
                           parseFloat_decimal (max_multiplier (rs ! 2))],
                        status = Pending, gale_used = False,
                        first_attempt_result = None, second_attempt_result = None\<rparr>]
               else signals w2)"
proof -
  let ?k = "(b, rid, m)"
  let ?w2 = "resolvePending b rid m w"
  let ?w2' = "resolvePending b rid m (markProcessed ?k w)"
  have w2': "?w2' = ?w2\<lparr>processedResults := processedResults (markProcessed ?k w)\<rparr>"
    by (rule resolvePending_markProcessed)
  have rs: "uniqueResults [] (getLastResults (game_rounds ?w2') b 5) = recentUnique w b"
    by (simp add: w2' recentUnique_def resolvePending_frame)
  show ?thesis
  proof (cases "3 \<le> length (recentUnique w b)")
    case False
    then show ?thesis
      using assms rs by (simp add: processNewResult_def Let_def w2')
  next
    case len: True
    show ?thesis
    proof (cases "detectPattern (recentUnique w b)")
      case None
      then have "\<not> spec_trigger (recentUnique w b)"
        using detectPattern_spec [OF len] by simp
      then show ?thesis
        using assms rs len None by (simp add: processNewResult_def Let_def w2')
    next
      case (Some p)
      then have trig: "spec_trigger (recentUnique w b)"
        using detectPattern_spec [OF len] by simp
      note p = detectPattern_Some [OF Some]
      show ?thesis
      proof (cases "pendingSignals ?w2 b")
        case None
        then have "pendingSignals ?w2' b = None" by (simp add: w2')
        from emitSignal_free [OF this, of p] show ?thesis
          using assms rs len Some trig None p
          by (simp add: processNewResult_def Let_def) (simp add: w2')
      next
        case (Some sid)
        then have "pendingSignals ?w2' b \<noteq> None" by (simp add: w2')
        from emitSignal_occupied [OF this] show ?thesis
          using assms rs len \<open>detectPattern (recentUnique w b) = Some p\<close> trig Some
          by (simp add: processNewResult_def Let_def) (simp add: w2')
      qed
    qed
  qed
qed

lemma processNewResult_duplicate:
  "(b, rid, m) \<in> set (processedResults w) \<Longrightarrow> processNewResult b rid m w = w"
  by (simp add: processNewResult_def)

subsection \<open>Resolution of a pending signal\<close>

lemma find_getPending:
  assumes "find (\<lambda>s. signal_id s = sid) (getPendingSignals (signals w) b) = Some sg"
  shows "sg \<in> set (signals w) \<and> signal_id sg = sid \<and> signal_bookmaker_id sg = b \<and>
         status sg = Pending"
  using assms by (auto simp: find_Some_iff getPendingSignals_def dest: nth_mem)

lemma verifySignal_found:
  assumes "find (\<lambda>s. signal_id s = sid) (getPendingSignals (signals w) b) = Some sg"
  shows "verifySignal sid b rid m w =
           (case to_decimal 10 2 (js_or m (Fin 0)) of
              Inl e \<Rightarrow> clearPending b w
            | Inr d \<Rightarrow>
                if first_attempt_result sg = None then
                  (if js_gt (js_or m (Fin 0)) (Fin (3 / 2))
                   then clearPending b
                          (w\<lparr>signals := map (\<lambda>s. if signal_id s = sid
                                                 then s\<lparr>first_attempt_result := Some d, status := Won\<rparr>
                                                 else s) (signals w),
                             signal_results := signal_results w @
                               [\<lparr>result_signal_id = sid, attempt_number = 1, result_multiplier = d,
                                 is_win = True, result_round_id = rid\<rparr>]\<rparr>)
                   else w\<lparr>signals := map (\<lambda>s. if signal_id s = sid
                                               then s\<lparr>first_attempt_result := Some d, status := Pending\<rparr>
                                               else s) (signals w),
                           signal_results := signal_results w @
                             [\<lparr>result_signal_id = sid, attempt_number = 1, result_multiplier = d,
                               is_win = False, result_round_id = rid\<rparr>]\<rparr>)
                else
                  clearPending b
                    (w\<lparr>signals := map (\<lambda>s. if signal_id s = sid
                                           then s\<lparr>second_attempt_result := Some d, gale_used := True,
                                                  status := (if js_gt (js_or m (Fin 0)) (Fin (3 / 2))
                                                             then Won else Lost)\<rparr>
                                           else s) (signals w),
                       signal_results := signal_results w @
                         [\<lparr>result_signal_id = sid, attempt_number = 2, result_multiplier = d,
                           is_win = js_gt (js_or m (Fin 0)) (Fin (3 / 2)),
                           result_round_id = rid\<rparr>]\<rparr>))"
  using assms
  by (auto simp: verifySignal_def updateFirstAttempt_def updateSecondAttempt_def
                 addSignalResult_def Let_def clearPending_def
           split: sum.splits)



subsection \<open>The invariant of the signal engine\<close>












subsection \<open>The two attempts\<close>

lemma resolvePending_overflow:
  assumes "pendingSignals w b = Some sid" and "sid \<noteq> 0"
    and "find (\<lambda>s. signal_id s = sid) (getPendingSignals (signals w) b) = Some sg"
    and "to_decimal 10 2 (js_or m (Fin 0)) = Inl e"
  shows "resolvePending b rid m w = clearPending b w"
  using assms by (simp add: resolvePending_def verifySignal_found)

lemma signal_by_id:
  assumes "distinct (map signal_id sigs)" and "sg \<in> set sigs"
  shows "find (\<lambda>s. signal_id s = signal_id sg) sigs = Some sg"
  using assms
proof (induction sigs)
  case Nil
  then show ?case by simp
next
  case (Cons a sigs)
  then show ?case by (auto simp: rev_image_eqI)
qed

lemma find_map_update:
  assumes "\<And>s. signal_id (f s) = signal_id s"
  shows "find (\<lambda>s. signal_id s = sid) (map (\<lambda>s. if signal_id s = sid then f s else s) sigs) =
           map_option f (find (\<lambda>s. signal_id s = sid) sigs)"
  by (induction sigs) (auto simp: assms)

text \<open>The two-attempt protocol for multipliers the attempt columns accept (below \<open>10^8\<close>
  after rounding). \<open>theSignal w sid\<close> is the signal of that id.\<close>

lemma first_attempt_in_range:
  assumes inv: "signal_inv w"
    and found: "find (\<lambda>s. signal_id s = sid) (getPendingSignals (signals w) b) = Some sg"
    and first: "first_attempt_result sg = None"
    and fit: "to_decimal 10 2 (js_or m (Fin 0)) = Inr d"
  shows "find (\<lambda>s. signal_id s = sid) (signals (verifySignal sid b rid m w)) =
           Some (sg\<lparr>first_attempt_result := Some d,
                    status := (if js_gt (js_or m (Fin 0)) (Fin (3 / 2)) then Won else Pending)\<rparr>) \<and>
         attemptsOf (verifySignal sid b rid m w) sid =
           attemptsOf w sid @
             [\<lparr>result_signal_id = sid, attempt_number = 1, result_multiplier = d,
               is_win = js_gt (js_or m (Fin 0)) (Fin (3 / 2)), result_round_id = rid\<rparr>] \<and>
         pendingSignals (verifySignal sid b rid m w) =
           (if js_gt (js_or m (Fin 0)) (Fin (3 / 2)) then (pendingSignals w)(b := None)
            else pendingSignals w)"
proof -
  note sg = find_getPending [OF found]
  have "distinct (map signal_id (signals w))" using inv by (simp add: signal_inv_def)
  then have f: "find (\<lambda>s. signal_id s = sid) (signals w) = Some sg"
    using signal_by_id [of "signals w" sg] sg by simp
  show ?thesis
    using first fit f
    by (simp add: verifySignal_found [OF found] clearPending_def attemptsOf_def find_map_update)
qed

lemma second_attempt_in_range:
  assumes inv: "signal_inv w"
    and found: "find (\<lambda>s. signal_id s = sid) (getPendingSignals (signals w) b) = Some sg"
    and first: "first_attempt_result sg \<noteq> None"
    and fit: "to_decimal 10 2 (js_or m (Fin 0)) = Inr d"
  shows "find (\<lambda>s. signal_id s = sid) (signals (verifySignal sid b rid m w)) =
           Some (sg\<lparr>second_attempt_result := Some d, gale_used := True,
                    status := (if js_gt (js_or m (Fin 0)) (Fin (3 / 2)) then Won else Lost)\<rparr>) \<and>
         attemptsOf (verifySignal sid b rid m w) sid =
           attemptsOf w sid @
             [\<lparr>result_signal_id = sid, attempt_number = 2, result_multiplier = d,
               is_win = js_gt (js_or m (Fin 0)) (Fin (3 / 2)), result_round_id = rid\<rparr>] \<and>
         pendingSignals (verifySignal sid b rid m w) = (pendingSignals w)(b := None)"
proof -
  note sg = find_getPending [OF found]
  have "distinct (map signal_id (signals w))" using inv by (simp add: signal_inv_def)
  then have f: "find (\<lambda>s. signal_id s = sid) (signals w) = Some sg"
    using signal_by_id [of "signals w" sg] sg by simp
  show ?thesis
    using first fit f
    by (simp add: verifySignal_found [OF found] clearPending_def attemptsOf_def find_map_update)
qed

subsection \<open>The concrete inputs, evaluated\<close>



lemma real_id_555: "''555'' \<noteq> [] \<and> \<not> isTemporaryId ''555''"
  by (simp add: isTemporaryId_def)

lemma js_1e30_literal: "fl (10 ^ 30) = js_1e30"
  by code_simp

lemma js_1e30_over_max: "js_gt js_1e30 MAX_MULTIPLIER_VALUE"
  by code_simp

lemma world_round_555_facts:
  "game_rounds world_round_555 = []"
  "roundData world_round_555 1 = Some (aggregate_example\<lparr>roundId := Some ''555''\<rparr>)"
  "savedRounds world_round_555 = {}"
  "backupLog world_round_555 = []"
  by (simp_all add: world_round_555_def world_empty_def)

lemma world_row_555_facts:
  "game_rounds world_row_555 = [row_example]"
  "roundData world_row_555 1 = Some (aggregate_example\<lparr>roundId := Some ''555''\<rparr>)"
  "savedRounds world_row_555 = {}"
  by (simp_all add: world_row_555_def world_round_555_def world_empty_def)

lemma findByRoundId_row_555: "findByRoundId (game_rounds world_row_555) 1 ''555'' = Some row_example"
  by (simp add: world_row_555_facts findByRoundId_def row_example_def)

lemma roundRow_infinite: "roundRow 1000 1 ''555'' (Fin 2) aggregate_infinite = Inr row_infinite"
  by code_simp

lemma validate_infinite: "validateCrashX (Fin 2) aggregate_infinite = Some (Fin 2)"
  by code_simp

lemma aggregate_infinite_totalBetAmount: "totalBetAmount aggregate_infinite = PInf"
  by (simp add: aggregate_infinite_def)

lemma js_1e30_finite: "isFinite js_1e30"
  by (simp add: js_1e30_def isFinite_def)






lemma recent_180_160_190:
  "recentUnique world_180_160_190 1 =
     [stored_round ''r3'' (9 / 5) 3000, stored_round ''r2'' (8 / 5) 2000,
      stored_round ''r1'' (19 / 10) 1000]"
  by (simp add: recentUnique_def getLastResults_def world_180_160_190_def world_empty_def
                stored_round_def)

lemma recent_180_160_210:
  "recentUnique world_180_160_210 1 =
     [stored_round ''r3'' (9 / 5) 3000, stored_round ''r2'' (8 / 5) 2000,
      stored_round ''r1'' (21 / 10) 1000]"
  by (simp add: recentUnique_def getLastResults_def world_180_160_210_def world_empty_def
                stored_round_def)

lemma recent_140_160_190:
  "recentUnique world_140_160_190 1 =
     [stored_round ''r3'' (7 / 5) 3000, stored_round ''r2'' (8 / 5) 2000,
      stored_round ''r1'' (19 / 10) 1000]"
  by (simp add: recentUnique_def getLastResults_def world_140_160_190_def world_empty_def
                stored_round_def)

lemma multipliers_read:
  "parseFloat_decimal (9 / 5) = js_180"
  "js_gt js_180 (Fin (3 / 2))"
  "js_gt (parseFloat_decimal (8 / 5)) (Fin (3 / 2))"
  "js_lt (parseFloat_decimal (19 / 10)) (Fin 2)"
  "\<not> js_lt (parseFloat_decimal (21 / 10)) (Fin 2)"
  "\<not> js_gt (parseFloat_decimal (7 / 5)) (Fin (3 / 2))"
  by code_simp+

lemma max_multiplier_stored [simp]: "max_multiplier (stored_round rid m ts) = m"
  by (simp add: stored_round_def)

lemma trigger_180_160_190: "spec_trigger (recentUnique world_180_160_190 1)"
  by (simp add: recent_180_160_190 spec_trigger_def multipliers_read)

lemma trigger_180_160_210: "\<not> spec_trigger (recentUnique world_180_160_210 1)"
  by (simp add: recent_180_160_210 spec_trigger_def multipliers_read)

lemma trigger_140_160_190: "\<not> spec_trigger (recentUnique world_140_160_190 1)"
  by (simp add: recent_140_160_190 spec_trigger_def multipliers_read)

lemma example_worlds_fresh:
  "processedResults world_180_160_190 = []" "pendingSignals world_180_160_190 1 = None"
  "signals world_180_160_190 = []" "signals_id_seq world_180_160_190 = 0"
  "processedResults world_180_160_210 = []" "pendingSignals world_180_160_210 1 = None"
  "signals world_180_160_210 = []"
  "processedResults world_140_160_190 = []" "pendingSignals world_140_160_190 1 = None"
  "signals world_140_160_190 = []"
  by (simp_all add: world_180_160_190_def world_180_160_210_def world_140_160_190_def
                    world_empty_def)

lemma resolvePending_idle: "pendingSignals w b = None \<Longrightarrow> resolvePending b rid m w = w"
  by (simp add: resolvePending_def)

lemma world_redelivered_facts:
  "(1, ''r3'', js_180) \<in> set (processedResults world_redelivered)"
  "pendingSignals world_redelivered 1 = None"
  "recentUnique world_redelivered 1 = recentUnique world_180_160_190 1"
  "signals world_redelivered = []"
  by (simp_all add: world_redelivered_def recentUnique_def world_180_160_190_def world_empty_def)



lemma world_pending_facts:
  "pendingSignals world_pending 1 = Some 1"
  "pendingSignals world_pending 2 = None"
  "signals world_pending = [signal_example]"
  "signal_results world_pending = []"
  "signals_id_seq world_pending = 1"
  "find (\<lambda>s. signal_id s = 1) (getPendingSignals (signals world_pending) 1) = Some signal_example"
  "first_attempt_result signal_example = None"
  by (simp_all add: world_pending_def world_180_160_190_def world_empty_def
                    getPendingSignals_def signal_example_def)

section \<open>The decoders\<close>

subsection \<open>Reads of the stream\<close>

lemma readAt_cases:
  "(readAt n ds = Inl OutOfRange \<and> length (buffer ds) < byteOffset ds + position ds + n) \<or>
   (\<exists>bs. readAt n ds = Inr (bs, ds\<lparr>position := position ds + n\<rparr>) \<and> length bs = n \<and>
         byteOffset ds + position ds + n \<le> length (buffer ds))"
  by (auto simp: readAt_def readBytes_def)

lemma valueOf_readAt_cases:
  "(valueOf f (readAt n ds) = Inl OutOfRange \<and> length (buffer ds) < byteOffset ds + position ds + n) \<or>
   (\<exists>x. valueOf f (readAt n ds) = Inr (x, ds\<lparr>position := position ds + n\<rparr>) \<and>
        byteOffset ds + position ds + n \<le> length (buffer ds))"
  using readAt_cases [of n ds] by (auto simp: valueOf_def)

lemmas read_cases =
  valueOf_readAt_cases [of be_nat 1, folded readUInt8_def]
  valueOf_readAt_cases [of be_int 1, folded readInt8_def]
  valueOf_readAt_cases [of be_nat 2, folded readUInt16_def]
  valueOf_readAt_cases [of be_int 2, folded readInt16_def]
  valueOf_readAt_cases [of be_int 4, folded readInt32_def]
  valueOf_readAt_cases [of "\<lambda>bs. fl (of_int (be_int bs))" 8, folded readInt64_def]
  valueOf_readAt_cases [of "\<lambda>bs. float32_of_bits (be_nat bs)" 4, folded readFloat32_def]
  valueOf_readAt_cases [of "\<lambda>bs. float64_of_bits (be_nat bs)" 8, folded readFloat64_def]

lemma advances_valueOf: "advances ds r \<Longrightarrow> advances ds (valueOf f r)"
  by (auto simp: advances_def valueOf_def split: sum.splits)

lemma advances_readAt: "advances ds (readAt n ds)"
  using readAt_cases [of n ds] by (auto simp: advances_def)

lemma advances_reads:
  "advances ds (readUInt8 ds)" "advances ds (readInt8 ds)" "advances ds (readUInt16 ds)"
  "advances ds (readInt16 ds)" "advances ds (readInt32 ds)" "advances ds (readInt64 ds)"
  "advances ds (readFloat32 ds)" "advances ds (readFloat64 ds)"
  by (simp_all add: readUInt8_def readInt8_def readUInt16_def readInt16_def readInt32_def
                    readInt64_def readFloat32_def readFloat64_def advances_valueOf advances_readAt)

lemma advances_trans:
  assumes "advances ds (Inr (x, ds1))" and "advances ds1 r"
  shows "advances ds r"
  using assms by (auto simp: advances_def split: sum.splits)

lemma advances_readUtf8String:
  "readUtf8String rt len ds = (s, ds') \<Longrightarrow> advances ds (Inr (x, ds'))"
  by (auto simp: readUtf8String_def advances_def Let_def)

lemma advances_readByteArray: "advances ds (Inr (readByteArray len ds))"
  by (auto simp: readByteArray_def advances_def Let_def)

lemma advances_arrayFrom:
  assumes "\<And>d. advances d (f d)"
  shows "advances ds (arrayFrom n f ds)"
proof (induction n arbitrary: ds)
  case 0
  then show ?case by (simp add: advances_def)
next
  case (Suc n)
  show ?case
  proof (cases "f ds")
    case (Inl e)
    then show ?thesis using assms [of ds] by (simp add: advances_def)
  next
    case (Inr p)
    obtain v ds1 where p: "p = (v, ds1)" by (cases p)
    have a: "advances ds (Inr (v, ds1))" using assms [of ds] Inr p by simp
    show ?thesis
      using Suc [of ds1] a Inr p
      by (auto simp: advances_def split: sum.splits)
  qed
qed

lemma advances_string_element:
  "advances d (case readUInt16 d of
                 Inl error \<Rightarrow> Inl error
               | Inr (len, d1) \<Rightarrow>
                   (case readUtf8String rt len d1 of (s, d2) \<Rightarrow> Inr (JStr s, d2)))"
  using advances_reads(3) [of d]
  by (auto simp: advances_def readUtf8String_def Let_def split: sum.splits)

lemma advances_counted:
  assumes "\<And>n d. advances d (g n d)"
  shows "advances ds (case readUInt16 ds of Inl error \<Rightarrow> Inl error | Inr (n, ds1) \<Rightarrow> g n ds1)"
proof (cases "readUInt16 ds")
  case (Inl e)
  with advances_reads(3) [of ds] show ?thesis by (simp add: advances_def)
next
  case (Inr p)
  obtain n ds1 where p: "p = (n, ds1)" by (cases p)
  have "advances ds (Inr (n, ds1))"
    using advances_reads(3) [of ds] Inr p by simp
  from advances_trans [OF this assms [of ds1 n]] show ?thesis
    using Inr p by simp
qed

lemma advances_if:
  assumes "c \<Longrightarrow> advances ds a" and "\<not> c \<Longrightarrow> advances ds b"
  shows "advances ds (if c then a else b)"
  using assms by simp

lemma advances_string: "advances ds (case readUtf8String rt n ds of (s, ds2) \<Rightarrow> Inr (JStr s, ds2))"
  by (simp add: readUtf8String_def Let_def advances_def)

lemma advances_decodeLeaf: "advances ds (decodeLeaf rt ds valueType)"
  unfolding decodeLeaf_def
  by (intro advances_if advances_counted advances_valueOf advances_arrayFrom advances_reads
            advances_string_element advances_readByteArray advances_string)
     (simp_all add: advances_def)

subsection \<open>The decoder ends by the bytes it reads\<close>

lemma advances_remaining: "advances ds (Inr (x, ds')) \<Longrightarrow> remaining ds' \<le> remaining ds"
  by (auto simp: advances_def remaining_def)

lemma readUInt16_Inr:
  assumes "readUInt16 ds = Inr (x, ds1)"
  shows "advances ds (Inr (y, ds1))" and "remaining ds1 + 2 \<le> remaining ds"
  using read_cases(3) [of ds] assms by (auto simp: advances_def remaining_def)

lemma readUInt8_Inr:
  assumes "readUInt8 ds = Inr (x, ds1)"
  shows "advances ds (Inr (y, ds1))" and "remaining ds1 + 1 \<le> remaining ds"
  using read_cases(1) [of ds] assms by (auto simp: advances_def remaining_def)

lemma read_Inl:
  "readUInt16 ds = Inl e \<Longrightarrow> e = OutOfRange" "readUInt8 ds = Inl e \<Longrightarrow> e = OutOfRange"
  using read_cases(3) [of ds] read_cases(1) [of ds] by auto

lemma decode_advances:
  "2 * remaining ds + 1 \<le> stack \<Longrightarrow> advances ds (decodeSfsObject rt stack ds)"
  "2 * remaining ds \<le> stack \<Longrightarrow> advances ds (objectElements rt stack n props ds)"
  "2 * remaining ds + 1 \<le> stack \<Longrightarrow> advances ds (decodeSfsArray rt stack ds)"
  "2 * remaining ds \<le> stack \<Longrightarrow> advances ds (arrayElements rt stack n elems ds)"
  "2 * remaining ds + 2 \<le> stack \<Longrightarrow> advances ds (decodeValue rt stack ds valueType)"
proof (induction rt stack ds and rt stack n props ds and rt stack ds and rt stack n elems ds
         and rt stack ds valueType
       rule: decodeSfsObject_objectElements_decodeSfsArray_arrayElements_decodeValue.induct)
  case (1 rt ds)
  then show ?case by simp
next
  case (2 rt stack ds)
  show ?case
  proof (cases "readUInt16 ds")
    case (Inl e)
    then show ?thesis using read_Inl(1) [OF Inl] by (simp add: advances_def)
  next
    case (Inr p)
    obtain n ds1 where p: "p = (n, ds1)" by (cases p)
    note r = readUInt16_Inr [OF Inr [unfolded p]]
    have "advances ds1 (objectElements rt stack n [] ds1)"
      using 2(1) [OF Inr p [symmetric]] r(2) 2(2) by simp
    from advances_trans [OF r(1) this] show ?thesis
      using Inr p by simp
  qed
next
  case (3 rt stack props ds)
  then show ?case by (simp add: advances_def)
next
  case (4 rt stack n props ds)
  show ?case
  proof (cases "readUInt16 ds")
    case (Inl e)
    then show ?thesis using read_Inl(1) [OF Inl] by (simp add: advances_def)
  next
    case (Inr p)
    obtain keyLength ds1 where p: "p = (keyLength, ds1)" by (cases p)
    note r1 = readUInt16_Inr [OF Inr [unfolded p]]
    obtain key ds2 where k: "readUtf8String rt keyLength ds1 = (key, ds2)"
      by (cases "readUtf8String rt keyLength ds1")
    have a2: "advances ds1 (Inr (y, ds2))" for y :: 'b
      using advances_readUtf8String [OF k] .
    show ?thesis
    proof (cases "readUInt8 ds2")
      case (Inl e)
      then show ?thesis
        using read_Inl(2) [OF Inl] Inr p k by (simp add: advances_def)
    next
      case Inr3: (Inr q)
      obtain valueType ds3 where q: "q = (valueType, ds3)" by (cases q)
      note r3 = readUInt8_Inr [OF Inr3 [unfolded q]]
      have rem3: "remaining ds3 + 1 \<le> remaining ds"
        using r3(2) advances_remaining [OF a2] r1(2) by simp
      have v: "advances ds3 (decodeValue rt stack ds3 valueType)"
        using 4(1) [OF Inr p [symmetric] k [symmetric] Inr3 q [symmetric]] rem3 4(3) by simp
      have a3: "advances ds (Inr (y, ds3))" for y :: 'b
        using advances_trans [OF r1(1) advances_trans [OF a2 r3(1)]] .
      show ?thesis
      proof (cases "decodeValue rt stack ds3 valueType")
        case (Inl e)
        then show ?thesis
          using v Inr p k Inr3 q by (simp add: advances_def)
      next
        case Inr4: (Inr u)
        obtain x ds4 where u: "u = (x, ds4)" by (cases u)
        have a4: "advances ds3 (Inr (x, ds4))" using v Inr4 u by simp
        have "advances ds4 (objectElements rt stack n (setProperty props key x) ds4)"
          using 4(2) [OF Inr p [symmetric] k [symmetric] Inr3 q [symmetric] Inr4 u [symmetric]]
                advances_remaining [OF a4] rem3 4(3)
          by simp
        from advances_trans [OF a3 advances_trans [OF a4 this]] show ?thesis
          using Inr p k Inr3 q Inr4 u by simp
      qed
    qed
  qed
next
  case (5 rt ds)
  then show ?case by simp
next
  case (6 rt stack ds)
  show ?case
  proof (cases "readUInt16 ds")
    case (Inl e)
    then show ?thesis using read_Inl(1) [OF Inl] by (simp add: advances_def)
  next
    case (Inr p)
    obtain n ds1 where p: "p = (n, ds1)" by (cases p)
    note r = readUInt16_Inr [OF Inr [unfolded p]]
    have "advances ds1 (arrayElements rt stack n [] ds1)"
      using 6(1) [OF Inr p [symmetric]] r(2) 6(2) by simp
    from advances_trans [OF r(1) this] show ?thesis
      using Inr p by simp
  qed
next
  case (7 rt stack elems ds)
  then show ?case by (simp add: advances_def)
next
  case (8 rt stack n elems ds)
  show ?case
  proof (cases "readUInt8 ds")
    case (Inl e)
    then show ?thesis using read_Inl(2) [OF Inl] by (simp add: advances_def)
  next
    case (Inr q)
    obtain valueType ds1 where q: "q = (valueType, ds1)" by (cases q)
    note r1 = readUInt8_Inr [OF Inr [unfolded q]]
    have v: "advances ds1 (decodeValue rt stack ds1 valueType)"
      using 8(1) [OF Inr q [symmetric]] r1(2) 8(3) by simp
    show ?thesis
    proof (cases "decodeValue rt stack ds1 valueType")
      case (Inl e)
      then show ?thesis
        using v Inr q by (simp add: advances_def)
    next
      case Inr2: (Inr u)
      obtain x ds2 where u: "u = (x, ds2)" by (cases u)
      have a2: "advances ds1 (Inr (x, ds2))" using v Inr2 u by simp
      have "advances ds2 (arrayElements rt stack n (elems @ [x]) ds2)"
        using 8(2) [OF Inr q [symmetric] Inr2 u [symmetric]]
              advances_remaining [OF a2] r1(2) 8(3)
        by simp
      from advances_trans [OF r1(1) advances_trans [OF a2 this]] show ?thesis
        using Inr q Inr2 u by simp
    qed
  qed
next
  case (9 rt ds valueType)
  then show ?case by simp
next
  case (10 rt stack ds valueType)
  then show ?case by (simp add: advances_decodeLeaf)
qed

lemma decode_same_on_deeper_stack:
  "decodeSfsObject rt stack ds \<noteq> Inl StackOverflow \<Longrightarrow>
     decodeSfsObject rt (Suc stack) ds = decodeSfsObject rt stack ds"
  "objectElements rt stack n props ds \<noteq> Inl StackOverflow \<Longrightarrow>
     objectElements rt (Suc stack) n props ds = objectElements rt stack n props ds"
  "decodeSfsArray rt stack ds \<noteq> Inl StackOverflow \<Longrightarrow>
     decodeSfsArray rt (Suc stack) ds = decodeSfsArray rt stack ds"
  "arrayElements rt stack n elems ds \<noteq> Inl StackOverflow \<Longrightarrow>
     arrayElements rt (Suc stack) n elems ds = arrayElements rt stack n elems ds"
  "decodeValue rt stack ds valueType \<noteq> Inl StackOverflow \<Longrightarrow>
     decodeValue rt (Suc stack) ds valueType = decodeValue rt stack ds valueType"
proof (induction rt stack ds and rt stack n props ds and rt stack ds and rt stack n elems ds
         and rt stack ds valueType
       rule: decodeSfsObject_objectElements_decodeSfsArray_arrayElements_decodeValue.induct)
  case (1 rt ds)
  then show ?case by simp
next
  case (2 rt stack ds)
  then show ?case by (auto split: sum.splits)
next
  case (3 rt stack props ds)
  then show ?case by simp
next
  case (4 rt stack n props ds)
  show ?case
  proof (cases "readUInt16 ds")
    case (Inl e)
    then show ?thesis by simp
  next
    case (Inr p)
    obtain keyLength ds1 where p: "p = (keyLength, ds1)" by (cases p)
    obtain key ds2 where k: "readUtf8String rt keyLength ds1 = (key, ds2)"
      by (cases "readUtf8String rt keyLength ds1")
    show ?thesis
    proof (cases "readUInt8 ds2")
      case (Inl e)
      then show ?thesis using Inr p k by simp
    next
      case Inr3: (Inr q)
      obtain valueType ds3 where q: "q = (valueType, ds3)" by (cases q)
      note ih1 = 4(1) [OF Inr p [symmetric] k [symmetric] Inr3 q [symmetric]]
      show ?thesis
      proof (cases "decodeValue rt stack ds3 valueType")
        case (Inl e)
        then have "e \<noteq> StackOverflow"
          using 4(3) Inr p k Inr3 q by auto
        then show ?thesis
          using ih1 Inl Inr p k Inr3 q by simp
      next
        case Inr4: (Inr u)
        obtain x ds4 where u: "u = (x, ds4)" by (cases u)
        note ih2 = 4(2) [OF Inr p [symmetric] k [symmetric] Inr3 q [symmetric] Inr4 u [symmetric]]
        have "objectElements rt stack n (setProperty props key x) ds4 \<noteq> Inl StackOverflow"
          using 4(3) Inr p k Inr3 q Inr4 u by simp
        then show ?thesis
          using ih1 ih2 Inr p k Inr3 q Inr4 u by simp
      qed
    qed
  qed
next
  case (5 rt ds)
  then show ?case by simp
next
  case (6 rt stack ds)
  then show ?case by (auto split: sum.splits)
next
  case (7 rt stack elems ds)
  then show ?case by simp
next
  case (8 rt stack n elems ds)
  show ?case
  proof (cases "readUInt8 ds")
    case (Inl e)
    then show ?thesis by simp
  next
    case (Inr q)
    obtain valueType ds1 where q: "q = (valueType, ds1)" by (cases q)
    note ih1 = 8(1) [OF Inr q [symmetric]]
    show ?thesis
    proof (cases "decodeValue rt stack ds1 valueType")
      case (Inl e)
      then have "e \<noteq> StackOverflow"
        using 8(3) Inr q by auto
      then show ?thesis
        using ih1 Inl Inr q by simp
    next
      case Inr2: (Inr u)
      obtain x ds2 where u: "u = (x, ds2)" by (cases u)
      note ih2 = 8(2) [OF Inr q [symmetric] Inr2 u [symmetric]]
      have "arrayElements rt stack n (elems @ [x]) ds2 \<noteq> Inl StackOverflow"
        using 8(3) Inr q Inr2 u by simp
      then show ?thesis
        using ih1 ih2 Inr q Inr2 u by simp
    qed
  qed
next
  case (9 rt ds valueType)
  then show ?case by simp
next
  case (10 rt stack ds valueType)
  then show ?case by auto
qed

lemma advances_no_overflow: "advances ds r \<Longrightarrow> r \<noteq> Inl StackOverflow"
  by (auto simp: advances_def)

text \<open>With a stack deeper than twice the bytes to read, the result does not depend on the
  depth: the decoding of a frame is bounded by the frame.\<close>

lemma decodeSfsObject_stack_irrelevant:
  assumes "2 * remaining ds + 1 \<le> stack"
  shows "decodeSfsObject rt (stack + k) ds = decodeSfsObject rt stack ds"
proof (induction k)
  case 0
  show ?case by simp
next
  case (Suc k)
  have "decodeSfsObject rt (stack + k) ds \<noteq> Inl StackOverflow"
    using advances_no_overflow [OF decode_advances(1) [of ds "stack + k" rt]] assms by simp
  from decode_same_on_deeper_stack(1) [OF this] Suc show ?case by simp
qed

lemma decodeSfsArray_stack_irrelevant:
  assumes "2 * remaining ds + 1 \<le> stack"
  shows "decodeSfsArray rt (stack + k) ds = decodeSfsArray rt stack ds"
proof (induction k)
  case 0
  show ?case by simp
next
  case (Suc k)
  have "decodeSfsArray rt (stack + k) ds \<noteq> Inl StackOverflow"
    using advances_no_overflow [OF decode_advances(3) [of ds "stack + k" rt]] assms by simp
  from decode_same_on_deeper_stack(3) [OF this] Suc show ?case by simp
qed

subsection \<open>What the decoders return\<close>

lemma objectElements_JObj:
  "objectElements rt stack n props ds = Inr (v, ds') \<Longrightarrow> \<exists>ps. v = JObj ps"
  by (induction n arbitrary: props ds) (auto split: sum.splits prod.splits)

lemma arrayElements_JArr:
  "arrayElements rt stack n elems ds = Inr (v, ds') \<Longrightarrow> \<exists>vs. v = JArr vs"
  by (induction n arbitrary: elems ds) (auto split: sum.splits prod.splits)

lemma decodeSfsObject_JObj:
  "decodeSfsObject rt stack ds = Inr (v, ds') \<Longrightarrow> isEnvelope v"
  by (cases stack) (auto simp: isEnvelope_def split: sum.splits dest: objectElements_JObj)

lemma decodeSfsArray_JArr:
  "decodeSfsArray rt stack ds = Inr (v, ds') \<Longrightarrow> isEnvelope v"
  by (cases stack) (auto simp: isEnvelope_def split: sum.splits dest: arrayElements_JArr)

lemma sfs_decodeMessage_Inr:
  "sfs_decodeMessage rt stack binaryData = Inr v \<Longrightarrow> v = JNull \<or> isEnvelope v"
  by (auto simp: sfs_decodeMessage_def bindE_def tryCatch_def returned_def Let_def
           split: sum.splits prod.splits if_splits option.splits
           dest: decodeSfsObject_JObj decodeSfsArray_JArr)

lemma sfs_decodeMessage_Inl:
  "sfs_decodeMessage rt stack binaryData = Inl e \<Longrightarrow> e = OutOfRange"
  by (auto simp: sfs_decodeMessage_def bindE_def tryCatch_def Let_def
           split: sum.splits prod.splits if_splits option.splits dest: read_Inl)

lemma getProperty_truthy: "toBoolean (getProperty v name) \<Longrightarrow> \<exists>ps. v = JObj ps"
  by (auto simp: getProperty_def toBoolean_def split: jsval.splits)

lemma normalizeDirectMessage_result:
  "\<exists>v. normalizeDirectMessage obj = Inr v \<and> (v = JNull \<or> isEnvelope v)"
  by (simp add: normalizeDirectMessage_def tryCatch_def envelope_def isEnvelope_def)

lemma normalizeArrayMessage_result:
  "\<exists>v. normalizeArrayMessage arr = Inr v \<and> (v = JNull \<or> isEnvelope v)"
  using normalizeDirectMessage_result [of "arr ! 0"]
  by (auto simp: normalizeArrayMessage_def tryCatch_def envelope_def isEnvelope_def)

lemma tryCatch_null:
  assumes "\<And>v. r = Inr v \<Longrightarrow> v = JNull \<or> isEnvelope v"
  shows "\<exists>v. tryCatch r (\<lambda>error. Inr JNull) = Inr v \<and> (v = JNull \<or> isEnvelope v)"
  using assms by (cases r) (auto simp: tryCatch_def)

lemma normalizeDirectMessage_Inr:
  "normalizeDirectMessage obj = Inr w \<Longrightarrow> w = JNull \<or> isEnvelope w"
  using normalizeDirectMessage_result [of obj] by auto

lemma normalizeArrayMessage_Inr:
  "normalizeArrayMessage arr = Inr w \<Longrightarrow> w = JNull \<or> isEnvelope w"
  using normalizeArrayMessage_result [of arr] by auto

lemma isEnvelope_simps:
  "isEnvelope (envelope c p)" "isEnvelope (JObj ps)" "isEnvelope (JArr vs)" "\<not> isEnvelope JNull"
  by (simp_all add: envelope_def isEnvelope_def)

lemma normalizeMessagePackStructure_result:
  "\<exists>v. normalizeMessagePackStructure decoded = Inr v \<and> (v = JNull \<or> isEnvelope v)"
proof (cases "toBoolean decoded")
  case False
  then show ?thesis by (simp add: normalizeMessagePackStructure_def)
next
  case True
  show ?thesis
  proof (cases "toBoolean (getProperty decoded ''p'') \<and> typeof (getProperty decoded ''p'') = ''object''")
    case p: True
    then obtain ps where "decoded = JObj ps" using getProperty_truthy by blast
    then show ?thesis
      using True p by (simp add: normalizeMessagePackStructure_def tryCatch_def isEnvelope_def)
  next
    case p: False
    have "\<exists>v. tryCatch
               (case decoded of
                  JArr arr \<Rightarrow>
                    if 2 \<le> length arr then normalizeArrayMessage arr
                    else normalizeDirectMessage decoded
                | _ \<Rightarrow>
                    if typeof decoded = ''object'' \<and> toBoolean (getProperty decoded ''c'') \<and>
                       toBoolean (getProperty decoded ''p'')
                    then Inr (JObj [(''p'', decoded)])
                    else if typeof decoded = ''object'' then normalizeDirectMessage decoded
                    else if typeof decoded = ''string'' \<or> typeof decoded = ''number'' then Inr JNull
                    else Inr (envelope (JStr ''unknown'') decoded))
               (\<lambda>error. Inr JNull) = Inr v \<and> (v = JNull \<or> isEnvelope v)"
    proof (rule tryCatch_null)
      fix v
      assume "(case decoded of
                  JArr arr \<Rightarrow>
                    if 2 \<le> length arr then normalizeArrayMessage arr
                    else normalizeDirectMessage decoded
                | _ \<Rightarrow>
                    if typeof decoded = ''object'' \<and> toBoolean (getProperty decoded ''c'') \<and>
                       toBoolean (getProperty decoded ''p'')
                    then Inr (JObj [(''p'', decoded)])
                    else if typeof decoded = ''object'' then normalizeDirectMessage decoded
                    else if typeof decoded = ''string'' \<or> typeof decoded = ''number'' then Inr JNull
                    else Inr (envelope (JStr ''unknown'') decoded)) = Inr v"
      then show "v = JNull \<or> isEnvelope v"
        by (cases decoded)
           (auto simp: isEnvelope_simps split: if_splits
                 dest: normalizeDirectMessage_Inr normalizeArrayMessage_Inr)
    qed
    moreover have "(toBoolean (getProperty decoded ''p'') \<and>
                    typeof (getProperty decoded ''p'') = ''object'') = False"
      using p by simp
    ultimately show ?thesis
      unfolding normalizeMessagePackStructure_def
      by (simp only: True not_True_eq_False if_False)
  qed
qed

lemma normalizeMessagePackStructure_Inr:
  "normalizeMessagePackStructure decoded = Inr w \<Longrightarrow> w = JNull \<or> isEnvelope w"
  using normalizeMessagePackStructure_result [of decoded] by auto

lemma bindE_Inr:
  assumes "bindE m f = Inr v"
  obtains x where "m = Inr x" and "f x = Inr v"
  using assms by (cases m) (auto simp: bindE_def)

lemma decodeMessagePackMessage_total:
  "\<exists>v. decodeMessagePackMessage rt binaryData = Inr v \<and> (v = JNull \<or> isEnvelope v)"
  unfolding decodeMessagePackMessage_def
proof (rule tryCatch_null)
  fix v
  assume a: "(if length binaryData = 0 then Inr JNull
        else if \<not> isMessagePackMessage binaryData then Inr JNull
        else
          bindE (msgpack_decode rt binaryData) (\<lambda>decoded.
            if toBoolean decoded then
              bindE (normalizeMessagePackStructure decoded) (\<lambda>normalized.
                bindE (logRoundEvents normalized) (\<lambda>_. Inr normalized))
            else Inr JNull)) = Inr v"
  show "v = JNull \<or> isEnvelope v"
  proof (cases "length binaryData = 0 \<or> \<not> isMessagePackMessage binaryData")
    case True
    then show ?thesis using a by (auto split: if_splits)
  next
    case False
    then have "bindE (msgpack_decode rt binaryData) (\<lambda>decoded.
            if toBoolean decoded then
              bindE (normalizeMessagePackStructure decoded) (\<lambda>normalized.
                bindE (logRoundEvents normalized) (\<lambda>_. Inr normalized))
            else Inr JNull) = Inr v"
      using a by simp
    then obtain decoded where d: "msgpack_decode rt binaryData = Inr decoded"
      and r: "(if toBoolean decoded then
              bindE (normalizeMessagePackStructure decoded) (\<lambda>normalized.
                bindE (logRoundEvents normalized) (\<lambda>_. Inr normalized))
            else Inr JNull) = Inr v"
      by (rule bindE_Inr)
    show ?thesis
    proof (cases "toBoolean decoded")
      case True
      then have "bindE (normalizeMessagePackStructure decoded) (\<lambda>normalized.
                bindE (logRoundEvents normalized) (\<lambda>_. Inr normalized)) = Inr v"
        using r by simp
      then obtain normalized where n: "normalizeMessagePackStructure decoded = Inr normalized"
        and l: "bindE (logRoundEvents normalized) (\<lambda>_. Inr normalized) = Inr v"
        by (rule bindE_Inr)
      have "v = normalized" using l by (rule bindE_Inr) simp
      then show ?thesis using normalizeMessagePackStructure_Inr [OF n] by simp
    next
      case False
      then show ?thesis using r by simp
    qed
  qed
qed


subsection \<open>Examples of frames\<close>

lemmas decoder_eval =
  decodeMessage_def sfs_decodeMessage_def decodeMessagePackMessage_def detectDecoderType_def
  isMessagePackMessage_def bindE_def tryCatch_def returned_def valueOf_def
  readUInt8_def readUInt16_def readInt8_def readAt_def readBytes_def DataStream_def
  readUtf8String_def slice_def be_nat_def be_int_def decodeLeaf_def jsInt_def
  toBoolean_def setProperty_def node_example_def frame_example_def Let_def

lemma char_of_99: "char_of (99::nat) = CHR ''c''"
  by code_simp

lemma decode_object_frame: "decodeMessage node_example (Suc (Suc (Suc 0))) frame_example AUTO = Inr (JObj [(''c'', JNum (Fin 5))])"
  by (simp add: decoder_eval char_of_99)

lemma sfs_truncated_frame_throws: "sfs_decodeMessage node_example (Suc (Suc (Suc 0))) [0x80] = Inl OutOfRange"
  by (simp add: decoder_eval)

lemma decode_truncated_frame: "decodeMessage node_example (Suc (Suc (Suc 0))) [0x80] SFS = Inr JNull"
  by (simp add: decoder_eval)

lemma decode_unsupported_root: "decodeMessage node_example (Suc (Suc (Suc 0))) [0x80, 0x00, 0x01, 0x13] SFS = Inr JNull"
  by (simp add: decoder_eval)

lemma decode_inflate_error: "decodeMessage node_example (Suc (Suc (Suc 0))) [0x80, 0x00, 0x03, 0x78, 0x9c, 0x00] SFS = Inr JNull"
  by (simp add: decoder_eval)

lemma decode_unsupported_tag: "decodeMessage node_example (Suc (Suc (Suc 0))) [0x80, 0x00, 0x04, 0x12, 0x00, 0x01, 0x00, 0x01, 0x63, 0x13] SFS = Inr JNull"
  by (simp add: decoder_eval)

lemma decode_exhausted_stack: "decodeMessage node_example 0 frame_example SFS = Inr JNull"
  by (simp add: decoder_eval)

lemma decode_empty_buffer: "decodeMessage node_example (Suc (Suc (Suc 0))) [] MSGPACK = Inr JNull"
  by (simp add: decoder_eval)

section \<open>Exactly-once persistence per natural key\<close>



section \<open>The similarity merge\<close>



section \<open>Rejection of invalid multipliers\<close>

lemma validateCrashX_PInf: "validateCrashX PInf rd = Some (Fin 1000000000000000000)"
  by (rule validateCrashX_over_max) (simp add: js_gt_def MAX_MULTIPLIER_VALUE_eq)

text \<open>Claim C3 (invalid multipliers are rejected). The validation returns for NaN, for
  \<open>-Infinity\<close> and for a value \<open>\<le> 0\<close> without a positive fallback, but not for \<open>+Infinity\<close>: the
  clamp to the maximum comes before the \<open>isFinite\<close> test, so \<open>+Infinity\<close> is validated as
  \<open>10^18\<close> and the call goes on. When the store already has the row of the key and the
  in-process set does not hold the key, the call adds the key to the set.\<close>

theorem infinite_crashX_not_rejected:
  assumes "roundData w b = Some rd" and "roundId rd = Some rid" and "rid \<noteq> []"
    and "findByRoundId (game_rounds w) b rid = Some r"
    and "(b, rid) \<notin> savedRounds w"
  shows "\<not> isFinite PInf \<and>
         validateCrashX PInf rd = Some (Fin (10 ^ 18)) \<and>
         savedRounds (saveRoundData now b PInf w) = insert (b, rid) (savedRounds w) \<and>
         savedRounds (saveRoundData now b PInf w) \<noteq> savedRounds w"
proof -
  have "savedRounds (saveRoundData now b PInf w) = insert (b, rid) (savedRounds w)"
    using assms(1-4) validateCrashX_PInf by (rule saveRoundData_existing_marks)
  then show ?thesis
    using assms(5) validateCrashX_PInf [of rd] by (auto simp: isFinite_def)
qed

theorem infinite_crashX_not_rejected_witness:
  "roundData world_row_555 1 = Some (aggregate_example\<lparr>roundId := Some ''555''\<rparr>) \<and>
   roundId (aggregate_example\<lparr>roundId := Some ''555''\<rparr>) = Some ''555'' \<and> ''555'' \<noteq> [] \<and>
   findByRoundId (game_rounds world_row_555) 1 ''555'' = Some row_example \<and>
   (1, ''555'') \<notin> savedRounds world_row_555 \<and>
   savedRounds world_row_555 = {} \<and>
   savedRounds (saveRoundData 1000 1 PInf world_row_555) = {(1, ''555'')}"
proof -
  have h2: "roundId (aggregate_example\<lparr>roundId := Some ''555''\<rparr>) = Some ''555''" by simp
  have h3: "''555'' \<noteq> []" by simp
  have h5: "(1, ''555'') \<notin> savedRounds world_row_555" by (simp add: world_row_555_facts)
  note t = infinite_crashX_not_rejected
             [OF world_row_555_facts(2) h2 h3 findByRoundId_row_555 h5, of 1000]
  show ?thesis
    using t h5 findByRoundId_row_555 by (simp add: world_row_555_facts)
qed

section \<open>A multiplier above the storage maximum\<close>

lemma saveRoundData_over_max_backup:
  assumes "js_gt crashX MAX_MULTIPLIER_VALUE"
    and "\<forall>r \<in> set (game_rounds w). max_multiplier r \<le> 10 ^ 18 - 1 / 100"
    and "roundData w b = Some rd" and "roundId rd = Some rid" and "rid \<noteq> []"
    and "(b, rid) \<notin> savedRounds w" and "findByRoundId (game_rounds w) b rid = None"
  shows "savedRounds (saveRoundData now b crashX w) = savedRounds w \<and>
         backupLog (saveRoundData now b crashX w) = backupLog w @ [(b, Some rid, crashX)]"
proof -
  have v: "validateCrashX crashX rd = Some (Fin 1000000000000000000)"
    using assms(1) by (rule validateCrashX_over_max)
  have sim: "similarToMerge now (game_rounds w) b rid (Fin 1000000000000000000) = None"
    using findSimilarRound_max [OF assms(2)] by (simp add: similarToMerge_def)
  show ?thesis
    using assms(2-7) v sim
    by (simp add: saveRoundData_def Let_def ensureRoundId_Some persistRound_over_max
                  saveRoundToBackup_def)
qed

text \<open>Claim C4 (numeric clamp). The clamp constant of the source, the literal
  \<open>999999999999999999.99\<close>, is the double \<open>10^18\<close>. A multiplier above it (\<open>1e30\<close>, or
  \<open>+Infinity\<close>) is clamped to \<open>10^18\<close>, which \<open>safeDecimalValue\<close> leaves as it is and which the
  column \<open>max_multiplier DECIMAL(20,2)\<close> refuses; the retry binds the same value. So on a
  table that respects its column, such a call stores nothing: the table and the in-process
  set are unchanged and the round goes to the backup log only.\<close>

theorem multiplier_above_max_not_persisted:
  assumes "js_gt crashX MAX_MULTIPLIER_VALUE"
    and "\<forall>r \<in> set (game_rounds w). max_multiplier r \<le> 10 ^ 18 - 1 / 100"
    and "roundData w b = Some rd" and "roundId rd = Some rid" and "rid \<noteq> []"
    and "(b, rid) \<notin> savedRounds w" and "findByRoundId (game_rounds w) b rid = None"
  shows "MAX_MULTIPLIER_VALUE = Fin (10 ^ 18) \<and>
         validateCrashX crashX rd = Some (Fin (10 ^ 18)) \<and>
         safeDecimalValue (Fin (10 ^ 18)) 2 MAX_MULTIPLIER_VALUE = Fin (10 ^ 18) \<and>
         to_decimal 20 2 (Fin (10 ^ 18)) = Inl NumericOverflow \<and>
         game_rounds (saveRoundData now b crashX w) = game_rounds w \<and>
         savedRounds (saveRoundData now b crashX w) = savedRounds w \<and>
         backupLog (saveRoundData now b crashX w) = backupLog w @ [(b, Some rid, crashX)]"
  using validateCrashX_over_max [OF assms(1), of rd] saveRoundData_over_max [OF assms(1,2), of now b]
    saveRoundData_over_max_backup [OF assms, of now]
  by (simp add: MAX_MULTIPLIER_VALUE_eq safeDecimalValue_max [simplified MAX_MULTIPLIER_VALUE_eq]
                to_decimal_max_overflow)

theorem multiplier_above_max_not_persisted_witness:
  "js_gt js_1e30 MAX_MULTIPLIER_VALUE \<and>
   game_rounds world_round_555 = [] \<and>
   roundData world_round_555 1 = Some (aggregate_example\<lparr>roundId := Some ''555''\<rparr>) \<and>
   roundId (aggregate_example\<lparr>roundId := Some ''555''\<rparr>) = Some ''555'' \<and> ''555'' \<noteq> [] \<and>
   (1, ''555'') \<notin> savedRounds world_round_555 \<and>
   findByRoundId (game_rounds world_round_555) 1 ''555'' = None \<and>
   game_rounds (saveRoundData 1000 1 js_1e30 world_round_555) = [] \<and>
   savedRounds (saveRoundData 1000 1 js_1e30 world_round_555) = {} \<and>
   backupLog (saveRoundData 1000 1 js_1e30 world_round_555) = [(1, Some ''555'', js_1e30)]"
proof -
  have h2: "\<forall>r \<in> set (game_rounds world_round_555). max_multiplier r \<le> 10 ^ 18 - 1 / 100"
    by (simp add: world_round_555_facts)
  have h4: "roundId (aggregate_example\<lparr>roundId := Some ''555''\<rparr>) = Some ''555''" by simp
  have h5: "''555'' \<noteq> []" by simp
  have h6: "(1, ''555'') \<notin> savedRounds world_round_555" by (simp add: world_round_555_facts)
  have h7: "findByRoundId (game_rounds world_round_555) 1 ''555'' = None"
    by (simp add: world_round_555_facts findByRoundId_def)
  note t = multiplier_above_max_not_persisted
             [OF js_1e30_over_max h2 world_round_555_facts(2) h4 h5 h6 h7, of 1000]
  show ?thesis
    using t js_1e30_over_max h2 h6 h7 by (simp add: world_round_555_facts)
qed

section \<open>The pattern trigger\<close>

text \<open>The claim as stated fails on a repeated delivery: the three latest rounds of source 1
  read \<open>[1.80, 1.60, 1.90]\<close>, the trigger holds and no signal is pending, before or after the
  resolution step, yet \<open>processNewResult\<close> creates no signal, because the result of round
  \<open>r3\<close> is already in the guard.\<close>

theorem redelivery_creates_no_signal:
  "3 \<le> length (recentUnique world_redelivered 1) \<and>
   spec_trigger (recentUnique world_redelivered 1) \<and>
   pendingSignals world_redelivered 1 = None \<and>
   pendingSignals (resolvePending 1 ''r3'' js_180 world_redelivered) 1 = None \<and>
   signals (processNewResult 1 ''r3'' js_180 world_redelivered) = signals world_redelivered \<and>
   length (signals (processNewResult 1 ''r3'' js_180 world_redelivered)) \<noteq>
     Suc (length (signals world_redelivered))"
  by (simp add: world_redelivered_facts processNewResult_duplicate resolvePending_idle
                trigger_180_160_190)
     (simp add: recent_180_160_190)

text \<open>Claim C5 (pattern trigger), amended. For a result that is not yet in the guard and a
  source with at least three recent rounds of distinct ids, \<open>processNewResult\<close> creates a
  signal exactly when the three most recent multipliers satisfy \<open>m[0] > 1.50\<close>,
  \<open>m[1] > 1.50\<close>, \<open>m[2] < 2.00\<close> and the pending slot of the source is empty once the call's
  own resolution step has run; it never creates more than one. A result already in the
  guard changes nothing. The histories \<open>[1.80, 1.60, 1.90]\<close>, \<open>[1.80, 1.60, 2.10]\<close> and
  \<open>[1.40, 1.60, 1.90]\<close> give one pending signal with that pattern, none, and none.\<close>

theorem pattern_trigger:
  "((b, rid, m) \<notin> set (processedResults w) \<and> 3 \<le> length (recentUnique w b) \<longrightarrow>
      (length (signals (processNewResult b rid m w)) = Suc (length (signals w)) \<longleftrightarrow>
         spec_trigger (recentUnique w b) \<and> pendingSignals (resolvePending b rid m w) b = None) \<and>
      (length (signals (processNewResult b rid m w)) \<noteq> Suc (length (signals w)) \<longrightarrow>
         length (signals (processNewResult b rid m w)) = length (signals w))) \<and>
   ((b, rid, m) \<in> set (processedResults w) \<longrightarrow> processNewResult b rid m w = w) \<and>
   signals (processNewResult 1 ''r3'' js_180 world_180_160_190) =
     [\<lparr>signal_id = 1, signal_bookmaker_id = 1,
       pattern_detected = [js_180, parseFloat_decimal (8 / 5), parseFloat_decimal (19 / 10)],
       status = Pending, gale_used = False,
       first_attempt_result = None, second_attempt_result = None\<rparr>] \<and>
   signals (processNewResult 1 ''r3'' js_180 world_180_160_210) = [] \<and>
   signals (processNewResult 1 ''r3'' (fl (7 / 5)) world_140_160_190) = []"
proof (intro conjI impI)
  assume h: "(b, rid, m) \<notin> set (processedResults w) \<and> 3 \<le> length (recentUnique w b)"
  then have new: "(b, rid, m) \<notin> set (processedResults w)" by simp
  note l = resolvePending_frame [of b rid m w, THEN conjunct2]
  show "length (signals (processNewResult b rid m w)) = Suc (length (signals w)) \<longleftrightarrow>
          spec_trigger (recentUnique w b) \<and> pendingSignals (resolvePending b rid m w) b = None"
    using h l by (simp add: processNewResult_new [OF new] Let_def)
  assume "length (signals (processNewResult b rid m w)) \<noteq> Suc (length (signals w))"
  then show "length (signals (processNewResult b rid m w)) = length (signals w)"
    using h l by (simp add: processNewResult_new [OF new] Let_def split: if_splits)
next
  assume "(b, rid, m) \<in> set (processedResults w)"
  then show "processNewResult b rid m w = w" by (rule processNewResult_duplicate)
next
  have new: "(1, ''r3'', js_180) \<notin> set (processedResults world_180_160_190)"
    by (simp add: example_worlds_fresh)
  show "signals (processNewResult 1 ''r3'' js_180 world_180_160_190) =
     [\<lparr>signal_id = 1, signal_bookmaker_id = 1,
       pattern_detected = [js_180, parseFloat_decimal (8 / 5), parseFloat_decimal (19 / 10)],
       status = Pending, gale_used = False,
       first_attempt_result = None, second_attempt_result = None\<rparr>]"
    by (simp add: processNewResult_new [OF new] Let_def resolvePending_idle example_worlds_fresh
                  trigger_180_160_190)
       (simp add: recent_180_160_190 multipliers_read)
next
  have new: "(1, ''r3'', js_180) \<notin> set (processedResults world_180_160_210)"
    by (simp add: example_worlds_fresh)
  show "signals (processNewResult 1 ''r3'' js_180 world_180_160_210) = []"
    by (simp add: processNewResult_new [OF new] Let_def resolvePending_idle example_worlds_fresh
                  trigger_180_160_210)
next
  have new: "(1, ''r3'', fl (7 / 5)) \<notin> set (processedResults world_140_160_190)"
    by (simp add: example_worlds_fresh)
  show "signals (processNewResult 1 ''r3'' (fl (7 / 5)) world_140_160_190) = []"
    by (simp add: processNewResult_new [OF new] Let_def resolvePending_idle example_worlds_fresh
                  trigger_140_160_190)
qed

theorem pattern_trigger_witness:
  "(1, ''r3'', js_180) \<notin> set (processedResults world_180_160_190) \<and>
   3 \<le> length (recentUnique world_180_160_190 1) \<and>
   spec_trigger (recentUnique world_180_160_190 1) \<and>
   pendingSignals (resolvePending 1 ''r3'' js_180 world_180_160_190) 1 = None \<and>
   length (signals (processNewResult 1 ''r3'' js_180 world_180_160_190)) =
     Suc (length (signals world_180_160_190)) \<and>
   (1, ''r3'', js_180) \<in> set (processedResults world_redelivered) \<and>
   processNewResult 1 ''r3'' js_180 world_redelivered = world_redelivered"
proof -
  have new: "(1, ''r3'', js_180) \<notin> set (processedResults world_180_160_190)"
    by (simp add: example_worlds_fresh)
  have len: "3 \<le> length (recentUnique world_180_160_190 1)"
    by (simp add: recent_180_160_190)
  have idle: "pendingSignals (resolvePending 1 ''r3'' js_180 world_180_160_190) 1 = None"
    by (simp add: resolvePending_idle example_worlds_fresh)
  have a: "length (signals (processNewResult 1 ''r3'' js_180 world_180_160_190)) =
             Suc (length (signals world_180_160_190))"
    using pattern_trigger [where b = 1 and rid = "''r3''" and m = js_180 and w = world_180_160_190]
      new len trigger_180_160_190 idle by blast
  have b: "processNewResult 1 ''r3'' js_180 world_redelivered = world_redelivered"
    using pattern_trigger [where b = 1 and rid = "''r3''" and m = js_180 and w = world_redelivered]
      world_redelivered_facts(1) by blast
  show ?thesis
    using new len trigger_180_160_190 idle a b world_redelivered_facts(1) by blast
qed

section \<open>Resolution of a signal by the following rounds\<close>

text \<open>Claim C6 (two-attempt resolution), at a multiplier the attempt columns cannot hold.
  The column \<open>game_rounds.max_multiplier\<close> is \<open>DECIMAL(20,2)\<close>, the columns
  \<open>signals.first_attempt_result\<close>, \<open>signals.second_attempt_result\<close> and
  \<open>signal_results.result_multiplier\<close> are \<open>DECIMAL(10,2)\<close>. When a source holds a pending
  signal without a first attempt and the next persisted round of the source has a winning
  multiplier that \<open>DECIMAL(20,2)\<close> accepts and \<open>DECIMAL(10,2)\<close> refuses, the verification
  step of \<open>processNewResult\<close> writes nothing: the signal is still pending and still without a
  first attempt, it has no new attempt row, and the pending slot of the source is emptied, so
  that no later round resolves it. The claim asks for status won and one attempt row.\<close>

theorem large_multiplier_leaves_signal_unresolved:
  assumes slot: "pendingSignals w b = Some sid" and nz: "sid \<noteq> 0"
    and found: "find (\<lambda>s. signal_id s = sid) (getPendingSignals (signals w) b) = Some sg"
    and first: "first_attempt_result sg = None"
    and persisted: "to_decimal 20 2 m = Inr d"
    and win: "js_gt m (Fin (3 / 2))"
    and overflow: "to_decimal 10 2 (js_or m (Fin 0)) = Inl e"
  shows "find (\<lambda>s. signal_id s = sid)
           (getPendingSignals (signals (resolvePending b rid m w)) b) = Some sg \<and>
         status sg = Pending \<and> first_attempt_result sg = None \<and>
         signals (resolvePending b rid m w) = signals w \<and>
         attemptsOf (resolvePending b rid m w) sid = attemptsOf w sid \<and>
         pendingSignals (resolvePending b rid m w) b = None"
proof -
  have r: "resolvePending b rid m w = clearPending b w"
    using resolvePending_overflow [OF slot nz found overflow] .
  have "status sg = Pending"
    using find_getPending [OF found] by simp
  then show ?thesis
    using found first by (simp add: r clearPending_def attemptsOf_def)
qed

theorem large_multiplier_leaves_signal_unresolved_witness:
  "pendingSignals world_pending 1 = Some 1 \<and>
   find (\<lambda>s. signal_id s = 1) (getPendingSignals (signals world_pending) 1) = Some signal_example \<and>
   first_attempt_result signal_example = None \<and>
   to_decimal 20 2 (Fin 100000000) = Inr 100000000 \<and>
   js_gt (Fin 100000000) (Fin (3 / 2)) \<and>
   to_decimal 10 2 (js_or (Fin 100000000) (Fin 0)) = Inl NumericOverflow \<and>
   find (\<lambda>s. signal_id s = 1)
     (getPendingSignals (signals (resolvePending 1 ''r4'' (Fin 100000000) world_pending)) 1) =
     Some signal_example \<and>
   status signal_example = Pending \<and>
   signals (resolvePending 1 ''r4'' (Fin 100000000) world_pending) = [signal_example] \<and>
   attemptsOf (resolvePending 1 ''r4'' (Fin 100000000) world_pending) 1 = [] \<and>
   pendingSignals (resolvePending 1 ''r4'' (Fin 100000000) world_pending) 1 = None"
proof -
  have slot: "pendingSignals world_pending 1 = Some 1"
    using world_pending_facts(1) .
  have found: "find (\<lambda>s. signal_id s = 1)
                 (getPendingSignals (signals world_pending) 1) = Some signal_example"
    using world_pending_facts(6) .
  have first: "first_attempt_result signal_example = None"
    by (simp add: signal_example_def)
  have persisted: "to_decimal 20 2 (Fin 100000000) = Inr 100000000" by code_simp
  have win: "js_gt (Fin 100000000) (Fin (3 / 2))" by (simp add: js_gt_def)
  have overflow: "to_decimal 10 2 (js_or (Fin 100000000) (Fin 0)) = Inl NumericOverflow"
    by code_simp
  have sigs: "signals world_pending = [signal_example]"
    by (simp add: world_pending_def)
  have none: "attemptsOf world_pending 1 = []"
    by (simp add: attemptsOf_def world_pending_facts(4))
  note t = large_multiplier_leaves_signal_unresolved
             [OF slot _ found first persisted win overflow, of "''r4''"]
  show ?thesis
    using t slot found first persisted win overflow sigs none by simp
qed

section \<open>At most one pending signal per source\<close>



section \<open>The unified decoder always returns\<close>

text \<open>Claim C9 (decode totality). For every buffer, every decoder mode, every behaviour of
  the library functions and every depth of the call stack, the unified \<open>decodeMessage\<close> returns:
  its result is never an exception, and the value returned is \<open>null\<close> or a decoded envelope
  (an object or an array).\<close>

theorem decodeMessage_total:
  "\<exists>v. decodeMessage rt stack binaryData decoderType = Inr v \<and> (v = JNull \<or> isEnvelope v)"
  unfolding decodeMessage_def
proof (rule tryCatch_null)
  fix v
  obtain m where m: "decodeMessagePackMessage rt binaryData = Inr m" "m = JNull \<or> isEnvelope m"
    using decodeMessagePackMessage_total by blast
  have s: "w = JNull \<or> isEnvelope w" if "sfs_decodeMessage rt stack binaryData = Inr w" for w
    using sfs_decodeMessage_Inr [OF that] .
  have first_msgpack: "v = JNull \<or> isEnvelope v"
    if "bindE (decodeMessagePackMessage rt binaryData) (\<lambda>result.
          if toBoolean result then Inr result
          else bindE (sfs_decodeMessage rt stack binaryData) (\<lambda>result.
                 if toBoolean result then Inr result else Inr JNull)) = Inr v"
  proof (cases "toBoolean m")
    case True
    then show ?thesis using that m by (simp add: bindE_def)
  next
    case False
    then have "bindE (sfs_decodeMessage rt stack binaryData) (\<lambda>result.
                 if toBoolean result then Inr result else Inr JNull) = Inr v"
      using that m by (simp add: bindE_def)
    then obtain w where "sfs_decodeMessage rt stack binaryData = Inr w"
      and "(if toBoolean w then Inr w else Inr JNull) = (Inr v :: js_error + jsval)"
      by (rule bindE_Inr)
    then show ?thesis using s [of w] by (auto split: if_splits)
  qed
  have first_sfs: "v = JNull \<or> isEnvelope v"
    if "bindE (sfs_decodeMessage rt stack binaryData) (\<lambda>result.
          if toBoolean result then Inr result
          else bindE (decodeMessagePackMessage rt binaryData) (\<lambda>result.
                 if toBoolean result then Inr result else Inr JNull)) = Inr v"
  proof -
    from that obtain w where w: "sfs_decodeMessage rt stack binaryData = Inr w"
      and r: "(if toBoolean w then Inr w
               else bindE (decodeMessagePackMessage rt binaryData) (\<lambda>result.
                      if toBoolean result then Inr result else Inr JNull)) = Inr v"
      by (rule bindE_Inr)
    show ?thesis
    proof (cases "toBoolean w")
      case True
      then show ?thesis using r s [OF w] by simp
    next
      case False
      then show ?thesis using r m by (auto simp: bindE_def split: if_splits)
    qed
  qed
  assume a: "(if length binaryData = 0 then Inr JNull
        else
          let actualDecoderType =
                (if decoderType = AUTO then detectDecoderType binaryData else decoderType)
          in case actualDecoderType of
               MSGPACK \<Rightarrow>
                 bindE (decodeMessagePackMessage rt binaryData) (\<lambda>result.
                   if toBoolean result then Inr result
                   else
                     bindE (sfs_decodeMessage rt stack binaryData) (\<lambda>result.
                       if toBoolean result then Inr result else Inr JNull))
             | _ \<Rightarrow>
                 bindE (sfs_decodeMessage rt stack binaryData) (\<lambda>result.
                   if toBoolean result then Inr result
                   else
                     bindE (decodeMessagePackMessage rt binaryData) (\<lambda>result.
                       if toBoolean result then Inr result else Inr JNull))) = Inr v"
  show "v = JNull \<or> isEnvelope v"
  proof (cases "length binaryData = 0")
    case True
    then show ?thesis using a by simp
  next
    case False
    define t where "t = (if decoderType = AUTO then detectDecoderType binaryData else decoderType)"
    have b: "(case t of
               MSGPACK \<Rightarrow>
                 bindE (decodeMessagePackMessage rt binaryData) (\<lambda>result.
                   if toBoolean result then Inr result
                   else
                     bindE (sfs_decodeMessage rt stack binaryData) (\<lambda>result.
                       if toBoolean result then Inr result else Inr JNull))
             | _ \<Rightarrow>
                 bindE (sfs_decodeMessage rt stack binaryData) (\<lambda>result.
                   if toBoolean result then Inr result
                   else
                     bindE (decodeMessagePackMessage rt binaryData) (\<lambda>result.
                       if toBoolean result then Inr result else Inr JNull))) = Inr v"
      using a False unfolding t_def Let_def by (simp only: if_False)
    show ?thesis
    proof (cases t)
      case SFS
      with b show ?thesis by (intro first_sfs) (simp only: decoder_type.case)
    next
      case MSGPACK
      with b show ?thesis by (intro first_msgpack) (simp only: decoder_type.case)
    next
      case AUTO
      with b show ?thesis by (intro first_sfs) (simp only: decoder_type.case)
    qed
  qed
qed

theorem decodeMessage_total_witness:
  "decodeMessage node_example (Suc (Suc (Suc 0))) frame_example AUTO =
     Inr (JObj [(''c'', JNum (Fin 5))]) \<and>
   isEnvelope (JObj [(''c'', JNum (Fin 5))]) \<and>
   sfs_decodeMessage node_example (Suc (Suc (Suc 0))) [0x80] = Inl OutOfRange \<and>
   decodeMessage node_example (Suc (Suc (Suc 0))) [0x80] SFS = Inr JNull \<and>
   decodeMessage node_example (Suc (Suc (Suc 0))) [0x80, 0x00, 0x01, 0x13] SFS = Inr JNull \<and>
   decodeMessage node_example (Suc (Suc (Suc 0))) [0x80, 0x00, 0x03, 0x78, 0x9c, 0x00] SFS =
     Inr JNull \<and>
   decodeMessage node_example (Suc (Suc (Suc 0)))
     [0x80, 0x00, 0x04, 0x12, 0x00, 0x01, 0x00, 0x01, 0x63, 0x13] SFS = Inr JNull \<and>
   decodeMessage node_example 0 frame_example SFS = Inr JNull \<and>
   decodeMessage node_example (Suc (Suc (Suc 0))) [] MSGPACK = Inr JNull"
  using decodeMessage_total [of node_example "Suc (Suc (Suc 0))" frame_example AUTO]
        decode_object_frame sfs_truncated_frame_throws decode_truncated_frame
        decode_unsupported_root decode_inflate_error decode_unsupported_tag
        decode_exhausted_stack decode_empty_buffer
  by (simp add: isEnvelope_def)

section \<open>What \<open>safeDecimalValue\<close> makes of its input\<close>

text \<open>Claim C10 (implicit). \<open>safeDecimalValue\<close> answers 0 for NaN and for both infinities.
  So when a finalize call stores its row, a bet total, a cashout total or a profit that is
  NaN or infinite is in that row as 0: the round is neither refused nor stored with the
  maximum. A finite input above a finite \<open>maxValue\<close> gives what \<open>maxValue\<close> itself gives,
  and with the maximum the code passes that is the maximum. A finite result for two
  decimals is the double nearest to an integer number of hundredths.\<close>

theorem safeDecimalValue_nonfinite_is_zero:
  "(\<not> isFinite v \<longrightarrow> safeDecimalValue v d mx = Fin 0) \<and>
   (rid \<noteq> [] \<and> \<not> isTemporaryId rid \<and> rowsOfKey b rid (game_rounds w) = [] \<and>
    (b, rid) \<notin> savedRounds w \<and> validateCrashX crashX agg = Some c \<and>
    roundRow now b rid c agg = Inr row \<longrightarrow>
      game_rounds (finalizeCall b rid (now, crashX, agg, False) w) = game_rounds w @ [row] \<and>
      (\<not> isFinite (totalBetAmount agg) \<longrightarrow> total_bet_amount row = 0) \<and>
      (\<not> isFinite (totalCashout agg) \<longrightarrow> total_cashout row = 0) \<and>
      (\<not> isFinite (js_sub (js_or (totalBetAmount agg) (Fin 0)) (js_or (totalCashout agg) (Fin 0)))
         \<longrightarrow> casino_profit row = 0)) \<and>
   (isFinite u \<and> isFinite mx \<and> js_gt u mx \<longrightarrow>
      safeDecimalValue u d mx = safeDecimalValue mx d mx) \<and>
   (isFinite u \<and> js_gt u MAX_MULTIPLIER_VALUE \<longrightarrow>
      safeDecimalValue u 2 MAX_MULTIPLIER_VALUE = MAX_MULTIPLIER_VALUE) \<and>
   (isFinite (safeDecimalValue x 2 mx) \<longrightarrow>
      (\<exists>k::int. safeDecimalValue x 2 mx = fl (of_int k / 100)))"
proof (intro conjI impI)
  assume h: "rid \<noteq> [] \<and> \<not> isTemporaryId rid \<and> rowsOfKey b rid (game_rounds w) = [] \<and>
    (b, rid) \<notin> savedRounds w \<and> validateCrashX crashX agg = Some c \<and>
    roundRow now b rid c agg = Inr row"
  then have none: "findByRoundId (game_rounds w) b rid = None"
    by (simp add: findByRoundId_None_iff)
  have "game_rounds (finalizeCall b rid (now, crashX, agg, False) w) = game_rounds w @ [row] \<and>
        savedRounds (finalizeCall b rid (now, crashX, agg, False) w) =
          insert (b, rid) (if False then {} else savedRounds w)"
    by (rule finalizeCall_inserts [where v = c]) (use h none in \<open>simp_all add: similarToMerge_real\<close>)
  then show "game_rounds (finalizeCall b rid (now, crashX, agg, False) w) = game_rounds w @ [row]"
    by simp
  from h have r: "roundRow now b rid c agg = Inr row" by simp
  { assume "\<not> isFinite (totalBetAmount agg)"
    then show "total_bet_amount row = 0" using roundRow_nonfinite_fields [OF r] by simp }
  { assume "\<not> isFinite (totalCashout agg)"
    then show "total_cashout row = 0" using roundRow_nonfinite_fields [OF r] by simp }
  { assume "\<not> isFinite (js_sub (js_or (totalBetAmount agg) (Fin 0)) (js_or (totalCashout agg) (Fin 0)))"
    then show "casino_profit row = 0" using roundRow_nonfinite_fields [OF r] by simp }
qed (auto intro: safeDecimalValue_nonfinite safeDecimalValue_clamps safeDecimalValue_clamps_default
                 safeDecimalValue_rounded)


theorem safeDecimalValue_nonfinite_is_zero_witness:
  "\<not> isFinite PInf \<and> safeDecimalValue PInf 2 MAX_MULTIPLIER_VALUE = Fin 0 \<and>
   ''555'' \<noteq> [] \<and> \<not> isTemporaryId ''555'' \<and> rowsOfKey 1 ''555'' (game_rounds world_empty) = [] \<and>
   (1, ''555'') \<notin> savedRounds world_empty \<and>
   validateCrashX (Fin 2) aggregate_infinite = Some (Fin 2) \<and>
   roundRow 1000 1 ''555'' (Fin 2) aggregate_infinite = Inr row_infinite \<and>
   \<not> isFinite (totalBetAmount aggregate_infinite) \<and>
   game_rounds (finalizeCall 1 ''555'' (1000, Fin 2, aggregate_infinite, False) world_empty) =
     [row_infinite] \<and>
   total_bet_amount row_infinite = 0 \<and>
   isFinite js_1e30 \<and> isFinite MAX_MULTIPLIER_VALUE \<and> js_gt js_1e30 MAX_MULTIPLIER_VALUE \<and>
   safeDecimalValue js_1e30 2 MAX_MULTIPLIER_VALUE = MAX_MULTIPLIER_VALUE \<and>
   isFinite (safeDecimalValue js_1e30 2 MAX_MULTIPLIER_VALUE) \<and>
   (\<exists>k::int. safeDecimalValue js_1e30 2 MAX_MULTIPLIER_VALUE = fl (of_int k / 100))"
proof -
  have h3: "rowsOfKey 1 ''555'' (game_rounds world_empty) = []"
    by (simp add: world_empty_def rowsOfKey_def)
  have h4: "(1, ''555'') \<notin> savedRounds world_empty"
    by (simp add: world_empty_def)
  have e: "game_rounds world_empty = []"
    by (simp add: world_empty_def)
  have m: "isFinite MAX_MULTIPLIER_VALUE"
    by (simp add: MAX_MULTIPLIER_VALUE_eq isFinite_def)
  have n: "\<not> isFinite PInf" "\<not> isFinite (totalBetAmount aggregate_infinite)"
    by (simp_all add: isFinite_def aggregate_infinite_totalBetAmount)
  note t = safeDecimalValue_nonfinite_is_zero
             [where v = PInf and d = 2 and mx = MAX_MULTIPLIER_VALUE and rid = "''555''" and b = 1
                and w = world_empty and crashX = "Fin 2" and agg = aggregate_infinite and c = "Fin 2"
                and now = 1000 and row = row_infinite and u = js_1e30 and x = js_1e30]
  have s: "safeDecimalValue js_1e30 2 MAX_MULTIPLIER_VALUE = MAX_MULTIPLIER_VALUE"
    using t js_1e30_finite js_1e30_over_max by blast
  have f: "isFinite (safeDecimalValue js_1e30 2 MAX_MULTIPLIER_VALUE)"
    using s m by simp
  have z: "total_bet_amount row_infinite = 0"
    by (simp add: row_infinite_def)
  show ?thesis
    using t real_id_555 h3 h4 validate_infinite roundRow_infinite n js_1e30_finite m
      js_1e30_over_max s f z
    by (simp add: e)
qed

end
